theory Spec2Isabelle
  imports Main "HOL-Library.Sublist"
begin

section \<open>Data model\<close>

text \<open>
  The backend is a set of Express request handlers over a MongoDB store, the local
  file system (staged uploads written by multer) and the Cloudinary object store.
  Every handler is embedded as a function from the world before the call to the
  outcome and the world after it.  A thrown exception or rejected promise is the
  \<open>Inl\<close> branch of the outcome.
\<close>

type_synonym object_id = nat

datatype db_op =
    UserFindById | UserSave | UserFindByIdAndUpdate
  | VideoFindById | VideoFindByIdAndUpdate | VideoFindByIdAndDelete | VideoCreate

text \<open>
  \<open>ApiError statusCode message\<close> is the repository's own error class; the other
  constructors are the exceptions of the JavaScript runtime and of the libraries.
\<close>

datatype error =
    ApiError nat string
  | TypeError string
  | JwtError string
  | DbError string
  | FsError string
  | CloudError string

fun message :: "error \<Rightarrow> string" where
  "message (ApiError c m) = m"
| "message (TypeError m) = m"
| "message (JwtError m) = m"
| "message (DbError m) = m"
| "message (FsError m) = m"
| "message (CloudError m) = m"

record payload =
  payload_id :: "object_id option"

record user =
  user_id :: object_id
  username :: string
  email :: string
  fullName :: string
  password :: "string option"
  refreshToken :: "string option"
  avatar :: "string option"
  coverImage :: "string option"

record video =
  video_id :: object_id
  title :: string
  description :: string
  duration :: "nat option"
  videoFile :: "string option"
  thumbnail :: "string option"
  views :: nat
  owner :: "object_id option"
  isPublished :: bool

record upload_response =
  url :: "string option"
  secure_url :: "string option"
  response_duration :: "nat option"

text \<open>Every observable side effect is appended to the trace of the world.\<close>

datatype event =
    CloudUpload string
  | CloudDestroy string string
  | FsUnlink string
  | DbWrite db_op object_id

record world =
  users :: "object_id \<rightharpoonup> user"
  videos :: "object_id \<rightharpoonup> video"
  files :: "string set"
  trace :: "event list"

text \<open>
  The environment of one request: the clock, \<open>process.env\<close>, and the behaviour of
  the external collaborators during that request.  \<open>jwt_sign payload secret expiresIn now\<close>
  and \<open>jwt_verify token secret now\<close> are the jsonwebtoken library; \<open>cloud_upload path\<close>
  is \<open>None\<close> when \<open>cloudinary.uploader.upload\<close> rejects; \<open>cloud_destroy publicId
  resourceType\<close> is \<open>None\<close> when \<open>cloudinary.uploader.destroy\<close> rejects; \<open>db_fault op\<close>
  is \<open>Some message\<close> when the mongoose call \<open>op\<close> rejects; \<open>fresh_id\<close> is the
  identifier the store gives to the next created document.
\<close>

record env =
  now :: nat
  ACCESS_TOKEN_SECRET :: string
  ACCESS_TOKEN_EXPIRY :: nat
  REFRESH_TOKEN_SECRET :: string
  REFRESH_TOKEN_EXPIRY :: nat
  jwt_sign :: "payload \<Rightarrow> string \<Rightarrow> nat \<Rightarrow> nat \<Rightarrow> string"
  jwt_verify :: "string \<Rightarrow> string \<Rightarrow> nat \<Rightarrow> error + payload"
  cloud_upload :: "string \<Rightarrow> upload_response option"
  cloud_destroy :: "string \<Rightarrow> string \<Rightarrow> string option"
  db_fault :: "db_op \<Rightarrow> string option"
  fresh_id :: object_id

record request =
  cookies_accessToken :: "string option"
  cookies_refreshToken :: "string option"
  header_Authorization :: "string option"
  body_refreshToken :: "string option"
  body_title :: "string option"
  body_description :: "string option"
  params_videoId :: "object_id option"
  file_path :: "string option"
  files_videoFile_path :: "string option"
  files_thumbnail_path :: "string option"
  req_user :: "user option"

datatype data = Tokens string string | UserData "user option" | VideoData video | NoData

record response =
  res_status :: nat
  res_cookies :: "(string \<times> string) list"
  res_cleared :: "string list"
  res_code :: nat
  res_data :: data
  res_message :: string

section \<open>JavaScript values and control flow\<close>

text \<open>
  A string-valued expression that may be \<open>undefined\<close> is a \<open>string option\<close>.
  \<open>truthy\<close> is JavaScript's truthiness on it: \<open>undefined\<close> and the empty string are
  falsy.  \<open>js_or a b\<close> is \<open>a || b\<close>.
\<close>

definition truthy :: "string option \<Rightarrow> bool" where
  "truthy s = (case s of None \<Rightarrow> False | Some v \<Rightarrow> v \<noteq> [])"

definition js_or :: "string option \<Rightarrow> string option \<Rightarrow> string option" where
  "js_or a b = (if truthy a then a else b)"

text \<open>\<open>String.prototype.replace\<close> with a string pattern: the first occurrence only.\<close>

fun replace_first :: "string \<Rightarrow> string \<Rightarrow> string \<Rightarrow> string" where
  "replace_first pat rep [] = (if pat = [] then rep else [])"
| "replace_first pat rep (c # cs) =
     (if prefix pat (c # cs) then rep @ drop (length pat) (c # cs)
      else c # replace_first pat rep cs)"

text \<open>\<open>String.prototype.split\<close> with a one-character separator.\<close>

fun split_on :: "char \<Rightarrow> string \<Rightarrow> string list" where
  "split_on sep [] = [[]]"
| "split_on sep (c # cs) =
     (if c = sep then [] # split_on sep cs
      else (case split_on sep cs of
              [] \<Rightarrow> [[c]]
            | p # ps \<Rightarrow> (c # p) # ps))"

text \<open>\<open>String.prototype.includes\<close>.\<close>

fun js_includes :: "string \<Rightarrow> string \<Rightarrow> bool" where
  "js_includes [] needle = (needle = [])"
| "js_includes (c # cs) needle = (prefix needle (c # cs) \<or> js_includes cs needle)"

text \<open>
  An asynchronous function is a state transformer with an outcome.  \<open>io_bind\<close> is
  sequencing (\<open>await\<close>), \<open>throw\<close> is \<open>throw\<close>, \<open>try_catch\<close> is \<open>try { } catch (error) { }\<close>:
  the effects of the body up to the exception stay in the world.
\<close>

type_synonym 'a io = "world \<Rightarrow> (error + 'a) \<times> world"

definition ret :: "'a \<Rightarrow> 'a io" where
  "ret x = (\<lambda>w. (Inr x, w))"

definition throw :: "error \<Rightarrow> 'a io" where
  "throw e = (\<lambda>w. (Inl e, w))"

definition io_bind :: "'a io \<Rightarrow> ('a \<Rightarrow> 'b io) \<Rightarrow> 'b io" where
  "io_bind m f = (\<lambda>w. case m w of
                        (Inl e, w') \<Rightarrow> (Inl e, w')
                      | (Inr x, w') \<Rightarrow> f x w')"

definition try_catch :: "'a io \<Rightarrow> (error \<Rightarrow> 'a io) \<Rightarrow> 'a io" where
  "try_catch m h = (\<lambda>w. case m w of
                          (Inl e, w') \<Rightarrow> h e w'
                        | (Inr x, w') \<Rightarrow> (Inr x, w'))"

definition emit :: "event \<Rightarrow> unit io" where
  "emit ev = (\<lambda>w. (Inr (), w\<lparr>trace := trace w @ [ev]\<rparr>))"

section \<open>File system and Cloudinary (src/utils/cloudinary.js)\<close>

text \<open>
  \<open>fs.unlinkSync\<close>: removes the file, and throws when there is no such file.
\<close>

definition unlinkSync :: "string \<Rightarrow> unit io" where
  "unlinkSync p =
     io_bind (emit (FsUnlink p)) (\<lambda>_ w.
       if p \<in> files w then (Inr (), w\<lparr>files := files w - {p}\<rparr>)
       else (Inl (FsError ''ENOENT: no such file or directory''), w))"

definition cloudinary_upload :: "env \<Rightarrow> string \<Rightarrow> upload_response io" where
  "cloudinary_upload env p =
     io_bind (emit (CloudUpload p)) (\<lambda>_.
       case cloud_upload env p of
         None \<Rightarrow> throw (CloudError ''upload failed'')
       | Some response \<Rightarrow> ret response)"

definition cloudinary_destroy :: "env \<Rightarrow> string \<Rightarrow> string \<Rightarrow> string io" where
  "cloudinary_destroy env publicId resourceType =
     io_bind (emit (CloudDestroy publicId resourceType)) (\<lambda>_.
       case cloud_destroy env publicId resourceType of
         None \<Rightarrow> throw (CloudError ''destroy failed'')
       | Some result \<Rightarrow> ret result)"

definition uploadOnCloudinary :: "env \<Rightarrow> string option \<Rightarrow> upload_response option io" where
  "uploadOnCloudinary env localFilePath =
     try_catch
       (case localFilePath of
          None \<Rightarrow> ret None
        | Some p \<Rightarrow>
            if p = [] then ret None
            else io_bind (cloudinary_upload env p) (\<lambda>response.
                 io_bind (unlinkSync p) (\<lambda>_.
                 ret (Some response))))
       (\<lambda>error.
          io_bind (unlinkSync (case localFilePath of None \<Rightarrow> [] | Some p \<Rightarrow> p)) (\<lambda>_.
          ret None))"

definition deleteFromCloudinary :: "env \<Rightarrow> string option \<Rightarrow> string option io" where
  "deleteFromCloudinary env fileUrl =
     try_catch
       (case fileUrl of
          None \<Rightarrow> ret None
        | Some u \<Rightarrow>
            if u = [] then ret None
            else
              (let urlParts = split_on CHR ''/'' u;
                   publicIdWithExtension = last urlParts;
                   publicId = hd (split_on CHR ''.'' publicIdWithExtension);
                   resourceType =
                     (if js_includes u ''/video/upload/'' then ''video''
                      else if js_includes u ''/image/upload/'' then ''image''
                      else ''auto'')
               in io_bind (cloudinary_destroy env publicId resourceType) (\<lambda>result.
                  ret (Some result))))
       (\<lambda>error. ret None)"

section \<open>The document store (mongoose)\<close>

text \<open>
  Every mongoose call first consults the fault oracle of the request; a rejected call
  leaves the store as it was.  \<open>findById\<close> of \<open>undefined\<close> or of an unknown identifier
  resolves to \<open>null\<close>, which is \<open>None\<close>.
\<close>

definition db_call :: "env \<Rightarrow> db_op \<Rightarrow> unit io" where
  "db_call env op =
     (case db_fault env op of
        Some m \<Rightarrow> throw (DbError m)
      | None \<Rightarrow> ret ())"

definition User_findById :: "env \<Rightarrow> object_id option \<Rightarrow> user option io" where
  "User_findById env i =
     io_bind (db_call env UserFindById) (\<lambda>_ w.
       (Inr (case i of None \<Rightarrow> None | Some k \<Rightarrow> users w k), w))"

definition User_save :: "env \<Rightarrow> user \<Rightarrow> unit io" where
  "User_save env u =
     io_bind (db_call env UserSave) (\<lambda>_ w.
       (Inr (), w\<lparr>users := (users w)(user_id u \<mapsto> u),
                  trace := trace w @ [DbWrite UserSave (user_id u)]\<rparr>))"

text \<open>\<open>findByIdAndUpdate(id, update, {new: true})\<close>: resolves to the updated document,
  or to \<open>null\<close> (writing nothing) when there is no document with that identifier.\<close>

definition User_findByIdAndUpdate ::
    "env \<Rightarrow> object_id option \<Rightarrow> (user \<Rightarrow> user) \<Rightarrow> user option io" where
  "User_findByIdAndUpdate env i f =
     io_bind (db_call env UserFindByIdAndUpdate) (\<lambda>_ w.
       case i of
         None \<Rightarrow> (Inr None, w)
       | Some k \<Rightarrow>
           (case users w k of
              None \<Rightarrow> (Inr None, w)
            | Some u \<Rightarrow>
                (Inr (Some (f u)),
                 w\<lparr>users := (users w)(k \<mapsto> f u),
                   trace := trace w @ [DbWrite UserFindByIdAndUpdate k]\<rparr>)))"

definition Video_findById :: "env \<Rightarrow> object_id option \<Rightarrow> video option io" where
  "Video_findById env i =
     io_bind (db_call env VideoFindById) (\<lambda>_ w.
       (Inr (case i of None \<Rightarrow> None | Some k \<Rightarrow> videos w k), w))"

definition Video_findByIdAndUpdate ::
    "env \<Rightarrow> object_id option \<Rightarrow> (video \<Rightarrow> video) \<Rightarrow> video option io" where
  "Video_findByIdAndUpdate env i f =
     io_bind (db_call env VideoFindByIdAndUpdate) (\<lambda>_ w.
       case i of
         None \<Rightarrow> (Inr None, w)
       | Some k \<Rightarrow>
           (case videos w k of
              None \<Rightarrow> (Inr None, w)
            | Some v \<Rightarrow>
                (Inr (Some (f v)),
                 w\<lparr>videos := (videos w)(k \<mapsto> f v),
                   trace := trace w @ [DbWrite VideoFindByIdAndUpdate k]\<rparr>)))"

definition Video_findByIdAndDelete :: "env \<Rightarrow> object_id option \<Rightarrow> video option io" where
  "Video_findByIdAndDelete env i =
     io_bind (db_call env VideoFindByIdAndDelete) (\<lambda>_ w.
       case i of
         None \<Rightarrow> (Inr None, w)
       | Some k \<Rightarrow>
           (case videos w k of
              None \<Rightarrow> (Inr None, w)
            | Some v \<Rightarrow>
                (Inr (Some v),
                 w\<lparr>videos := (videos w)(k := None),
                   trace := trace w @ [DbWrite VideoFindByIdAndDelete k]\<rparr>)))"

text \<open>\<open>Video.create\<close> resolves to the created document and never to \<open>null\<close>, so
  the test \<open>if (!video)\<close> that follows it in \<open>publishAVideo\<close> has no branch here.\<close>

definition Video_create :: "env \<Rightarrow> video \<Rightarrow> video io" where
  "Video_create env v =
     io_bind (db_call env VideoCreate) (\<lambda>_ w.
       (let created = v\<lparr>video_id := fresh_id env\<rparr>
        in (Inr created,
            w\<lparr>videos := (videos w)(fresh_id env \<mapsto> created),
              trace := trace w @ [DbWrite VideoCreate (fresh_id env)]\<rparr>)))"

text \<open>\<open>.select("-password -refreshToken")\<close> and \<open>.select("-password")\<close>.\<close>

definition select_minus_password_refreshToken :: "user \<Rightarrow> user" where
  "select_minus_password_refreshToken u = u\<lparr>password := None, refreshToken := None\<rparr>"

definition select_minus_password :: "user \<Rightarrow> user" where
  "select_minus_password u = u\<lparr>password := None\<rparr>"

section \<open>Token issuance, rotation and revocation (src/controllers/user.controller.js)\<close>

text \<open>
  Modelled from the spec: the methods \<open>generateAccessToken\<close> and \<open>generateRefreshToken\<close>
  of the user model (models/user.model.js), which is not among the sources.  The spec:
  the short-lived token is signed, carries the principal identifier and has a fixed
  short expiry; the long-lived token is signed, carries the principal identifier and has
  a fixed longer expiry.
\<close>

definition generateAccessToken :: "env \<Rightarrow> user \<Rightarrow> string" where
  "generateAccessToken env u =
     jwt_sign env \<lparr>payload_id = Some (user_id u)\<rparr>
       (ACCESS_TOKEN_SECRET env) (ACCESS_TOKEN_EXPIRY env) (now env)"

definition generateRefreshToken :: "env \<Rightarrow> user \<Rightarrow> string" where
  "generateRefreshToken env u =
     jwt_sign env \<lparr>payload_id = Some (user_id u)\<rparr>
       (REFRESH_TOKEN_SECRET env) (REFRESH_TOKEN_EXPIRY env) (now env)"

definition generateAccessAndRefreshToken :: "env \<Rightarrow> object_id \<Rightarrow> (string \<times> string) io" where
  "generateAccessAndRefreshToken env userId =
     try_catch
       (io_bind (User_findById env (Some userId)) (\<lambda>found.
          case found of
            None \<Rightarrow> throw (TypeError ''Cannot read properties of null'')
          | Some u \<Rightarrow>
              (let accessToken = generateAccessToken env u;
                   newRefreshToken = generateRefreshToken env u
               in io_bind (User_save env (u\<lparr>refreshToken := Some newRefreshToken\<rparr>)) (\<lambda>_.
                  ret (accessToken, newRefreshToken)))))
       (\<lambda>error. throw (ApiError 500
          '' something went wrong while generating access and refresh token''))"

definition json :: "nat \<Rightarrow> nat \<Rightarrow> data \<Rightarrow> string \<Rightarrow> response" where
  "json st code d m =
     \<lparr>res_status = st, res_cookies = [], res_cleared = [],
      res_code = code, res_data = d, res_message = m\<rparr>"

definition logoutUser :: "env \<Rightarrow> request \<Rightarrow> response io" where
  "logoutUser env req =
     (case req_user req of
        None \<Rightarrow> throw (TypeError ''Cannot read properties of undefined'')
      | Some ru \<Rightarrow>
          io_bind (User_findByIdAndUpdate env (Some (user_id ru))
                     (\<lambda>u. u\<lparr>refreshToken := None\<rparr>)) (\<lambda>_.
          ret ((json 200 200 NoData ''User Logged Out'')
                 \<lparr>res_cleared := [''accessToken'', ''refreshToken'']\<rparr>)))"

definition refreshAccessToken :: "env \<Rightarrow> request \<Rightarrow> response io" where
  "refreshAccessToken env req =
     (case js_or (cookies_refreshToken req) (body_refreshToken req) of
        None \<Rightarrow> throw (ApiError 401 ''unauthorized request'')
      | Some incomingRefreshToken \<Rightarrow>
          if incomingRefreshToken = [] then throw (ApiError 401 ''unauthorized request'')
          else
            try_catch
              (io_bind (\<lambda>w. (jwt_verify env incomingRefreshToken
                                (REFRESH_TOKEN_SECRET env) (now env), w)) (\<lambda>decodedToken.
               io_bind (User_findById env (payload_id decodedToken)) (\<lambda>found.
               case found of
                 None \<Rightarrow> throw (ApiError 401 ''Invalid refresh token'')
               | Some u \<Rightarrow>
                   if Some incomingRefreshToken \<noteq> refreshToken u
                   then throw (ApiError 401 ''Refresh token is expired or used'')
                   else
                     io_bind (generateAccessAndRefreshToken env (user_id u))
                       (\<lambda>(accessToken, newRefreshToken).
                     ret ((json 200 200 (Tokens accessToken newRefreshToken)
                             ''Access token refreshed'')
                            \<lparr>res_cookies := [(''accessToken'', accessToken),
                                             (''refreshToken'', newRefreshToken)]\<rparr>)))))
              (\<lambda>error. throw (ApiError 401
                 (if message error = [] then ''Invalid refresh token'' else message error))))"

section \<open>Authentication middlewares\<close>

text \<open>
  The jsonwebtoken module exports \<open>sign\<close>, \<open>verify\<close> and \<open>decode\<close>.  It has no member
  \<open>verifyJWT\<close>, so the call \<open>jwt.verifyJWT(token, secret)\<close> of
  src/middlewares/auth.middleware.js calls \<open>undefined\<close> and throws a TypeError.
\<close>

definition jwt_verifyJWT :: "string \<Rightarrow> string \<Rightarrow> payload io" where
  "jwt_verifyJWT token secret = throw (TypeError ''jwt.verifyJWT is not a function'')"

text \<open>\<open>verifyJWT\<close> of unnamed/part_001.\<close>

definition verifyJWT :: "env \<Rightarrow> request \<Rightarrow> request io" where
  "verifyJWT env req =
     try_catch
       (case js_or (cookies_accessToken req)
               (map_option (replace_first ''Bearer '' []) (header_Authorization req)) of
          None \<Rightarrow> throw (ApiError 401 ''Unauthorized request'')
        | Some token \<Rightarrow>
            if token = [] then throw (ApiError 401 ''Unauthorized request'')
            else
              io_bind (\<lambda>w. (jwt_verify env token (ACCESS_TOKEN_SECRET env) (now env), w))
                (\<lambda>decodedToken.
              io_bind (User_findById env (payload_id decodedToken)) (\<lambda>found.
              case map_option select_minus_password_refreshToken found of
                None \<Rightarrow> throw (ApiError 401 ''Invalid Access Token'')
              | Some u \<Rightarrow> ret (req\<lparr>req_user := Some u\<rparr>))))
       (\<lambda>error. throw (ApiError 401
          (if message error = [] then ''Invalid Access Token'' else message error)))"

text \<open>\<open>verifyJWT\<close> of src/middlewares/auth.middleware.js.\<close>

definition verifyJWT_auth_middleware :: "env \<Rightarrow> request \<Rightarrow> request io" where
  "verifyJWT_auth_middleware env req =
     try_catch
       (case js_or (cookies_accessToken req)
               (map_option (replace_first ''bearer '' []) (header_Authorization req)) of
          None \<Rightarrow> throw (ApiError 401 ''unauthorized request'')
        | Some token \<Rightarrow>
            if token = [] then throw (ApiError 401 ''unauthorized request'')
            else
              io_bind (jwt_verifyJWT token (ACCESS_TOKEN_SECRET env)) (\<lambda>decodedToken.
              io_bind (User_findById env (payload_id decodedToken)) (\<lambda>found.
              case map_option select_minus_password_refreshToken found of
                None \<Rightarrow> throw (ApiError 401 ''invalid access token'')
              | Some u \<Rightarrow> ret (req\<lparr>req_user := Some u\<rparr>))))
       (\<lambda>error. throw (ApiError 401
          (if message error = [] then ''Invalid Access Token'' else message error)))"

text \<open>\<open>verifyJWTOptional\<close> of unnamed/part_000; its result is the request handed to
  \<open>next()\<close>.\<close>

definition verifyJWTOptional :: "env \<Rightarrow> request \<Rightarrow> request io" where
  "verifyJWTOptional env req =
     try_catch
       (case js_or (cookies_accessToken req)
               (map_option (replace_first ''Bearer '' []) (header_Authorization req)) of
          None \<Rightarrow> ret req
        | Some token \<Rightarrow>
            if token = [] then ret req
            else
              io_bind (\<lambda>w. (jwt_verify env token (ACCESS_TOKEN_SECRET env) (now env), w))
                (\<lambda>decodedToken.
              io_bind (User_findById env (payload_id decodedToken)) (\<lambda>found.
              case map_option select_minus_password_refreshToken found of
                None \<Rightarrow> ret req
              | Some u \<Rightarrow> ret (req\<lparr>req_user := Some u\<rparr>))))
       (\<lambda>error. ret req)"

section \<open>Asset replacement (src/controllers/user.controller.js)\<close>

text \<open>The \<open>try { await deleteFromCloudinary(old) } catch (e) { console.error(...) }\<close>
  block guarded by \<open>if (old)\<close> that every replacement and deletion handler uses.\<close>

definition delete_old_asset :: "env \<Rightarrow> string option \<Rightarrow> unit io" where
  "delete_old_asset env old =
     (if truthy old
      then try_catch (io_bind (deleteFromCloudinary env old) (\<lambda>_. ret ())) (\<lambda>e. ret ())
      else ret ())"

definition updateUserAvatar :: "env \<Rightarrow> request \<Rightarrow> response io" where
  "updateUserAvatar env req =
     (if \<not> truthy (file_path req) then throw (ApiError 400 ''Avatar file is missing'')
      else
        io_bind (uploadOnCloudinary env (file_path req)) (\<lambda>uploaded.
        case uploaded of
          None \<Rightarrow> throw (ApiError 400 ''Error while uploading avatar'')
        | Some up \<Rightarrow>
            if \<not> truthy (secure_url up) then throw (ApiError 400 ''Error while uploading avatar'')
            else
              (case req_user req of
                 None \<Rightarrow> throw (TypeError ''Cannot read properties of undefined'')
               | Some ru \<Rightarrow>
                   (let oldAvatar = avatar ru
                    in io_bind (User_findByIdAndUpdate env (Some (user_id ru))
                                  (\<lambda>u. u\<lparr>avatar := secure_url up\<rparr>)) (\<lambda>updated.
                       io_bind (delete_old_asset env oldAvatar) (\<lambda>_.
                       ret (json 200 200
                              (UserData (map_option select_minus_password updated))
                              ''Avatar image updated successfully'')))))))"

definition updateUserCoverImage :: "env \<Rightarrow> request \<Rightarrow> response io" where
  "updateUserCoverImage env req =
     (if \<not> truthy (file_path req) then throw (ApiError 400 ''Cover image file is missing'')
      else
        io_bind (uploadOnCloudinary env (file_path req)) (\<lambda>uploaded.
        case uploaded of
          None \<Rightarrow> throw (ApiError 400 ''Error while uploading cover image'')
        | Some up \<Rightarrow>
            if \<not> truthy (secure_url up)
            then throw (ApiError 400 ''Error while uploading cover image'')
            else
              (case req_user req of
                 None \<Rightarrow> throw (TypeError ''Cannot read properties of undefined'')
               | Some ru \<Rightarrow>
                   (let oldCoverImage = coverImage ru
                    in io_bind (User_findByIdAndUpdate env (Some (user_id ru))
                                  (\<lambda>u. u\<lparr>coverImage := secure_url up\<rparr>)) (\<lambda>updated.
                       io_bind (delete_old_asset env oldCoverImage) (\<lambda>_.
                       ret (json 200 200
                              (UserData (map_option select_minus_password updated))
                              ''Cover image updated successfully'')))))))"

section \<open>Videos (src/controllers/video.controller.js)\<close>

text \<open>
  The file holds two generations of the controller.  The definitions without a suffix
  are the first one (lines 1 to 417); \<open>publishAVideo_2\<close> is \<open>publishAVideo\<close> of the
  second one (lines 515 to 568).  \<open>deleteVideo\<close> is the same text in both.
  \<open>params_videoId\<close> is \<open>None\<close> when \<open>isValidObjectId(videoId)\<close> is false.
\<close>

definition publishAVideo :: "env \<Rightarrow> request \<Rightarrow> response io" where
  "publishAVideo env req =
     (if \<not> truthy (body_title req) \<or> \<not> truthy (body_description req)
      then throw (ApiError 400 ''Title and description are required'')
      else if \<not> truthy (files_videoFile_path req)
      then throw (ApiError 400 ''Video file is required'')
      else if \<not> truthy (files_thumbnail_path req)
      then throw (ApiError 400 ''Thumbnail is required'')
      else
        io_bind (uploadOnCloudinary env (files_videoFile_path req)) (\<lambda>uploadedVideo.
        io_bind (uploadOnCloudinary env (files_thumbnail_path req)) (\<lambda>uploadedThumbnail.
        case uploadedVideo of
          None \<Rightarrow> throw (ApiError 500 ''Video file upload failed'')
        | Some vf \<Rightarrow>
            (case uploadedThumbnail of
               None \<Rightarrow> throw (ApiError 500 ''Thumbnail upload failed'')
             | Some th \<Rightarrow>
                 io_bind (Video_create env
                   \<lparr>video_id = 0,
                    title = (case body_title req of None \<Rightarrow> [] | Some t \<Rightarrow> t),
                    description = (case body_description req of None \<Rightarrow> [] | Some d \<Rightarrow> d),
                    duration = response_duration vf,
                    videoFile = secure_url vf,
                    thumbnail = secure_url th,
                    views = 0,
                    owner = map_option user_id (req_user req),
                    isPublished = True\<rparr>) (\<lambda>created.
                 ret (json 201 201 (VideoData created) ''Video uploaded successfully''))))))"

definition publishAVideo_2 :: "env \<Rightarrow> request \<Rightarrow> response io" where
  "publishAVideo_2 env req =
     (if \<not> truthy (body_title req) \<or> \<not> truthy (body_description req)
      then throw (ApiError 400 ''Title and description are required'')
      else if \<not> truthy (files_videoFile_path req)
      then throw (ApiError 400 ''Video file is required'')
      else if \<not> truthy (files_thumbnail_path req)
      then throw (ApiError 400 ''Thumbnail is required'')
      else
        io_bind (uploadOnCloudinary env (files_videoFile_path req)) (\<lambda>uploadedVideo.
        io_bind (uploadOnCloudinary env (files_thumbnail_path req)) (\<lambda>uploadedThumbnail.
        case uploadedVideo of
          None \<Rightarrow> throw (ApiError 400 ''Video file upload failed'')
        | Some vf \<Rightarrow>
            (case uploadedThumbnail of
               None \<Rightarrow> throw (ApiError 400 ''Thumbnail upload failed'')
             | Some th \<Rightarrow>
                 io_bind (Video_create env
                   \<lparr>video_id = 0,
                    title = (case body_title req of None \<Rightarrow> [] | Some t \<Rightarrow> t),
                    description = (case body_description req of None \<Rightarrow> [] | Some d \<Rightarrow> d),
                    duration = response_duration vf,
                    videoFile = url vf,
                    thumbnail = url th,
                    views = 0,
                    owner = map_option user_id (req_user req),
                    isPublished = False\<rparr>) (\<lambda>created.
                 io_bind (Video_findById env (Some (video_id created))) (\<lambda>videoUploaded.
                 case videoUploaded of
                   None \<Rightarrow> throw (ApiError 500 ''Video upload failed please try again'')
                 | Some vu \<Rightarrow>
                     ret (json 201 200 (VideoData vu) ''Video uploaded successfully'')))))))"

text \<open>The owner test \<open>video.owner.toString() !== req.user?._id.toString()\<close>: the right
  side is \<open>undefined\<close> when there is no \<open>req.user\<close>, and the left side throws when the
  document has no owner.\<close>

definition not_owner :: "video \<Rightarrow> request \<Rightarrow> bool io" where
  "not_owner v req =
     (case owner v of
        None \<Rightarrow> throw (TypeError ''Cannot read properties of undefined'')
      | Some ow \<Rightarrow> ret (Some ow \<noteq> map_option user_id (req_user req)))"

definition updateVideo :: "env \<Rightarrow> request \<Rightarrow> response io" where
  "updateVideo env req =
     (let thumbnailLocalPath = file_path req
      in if params_videoId req = None then throw (ApiError 400 ''Invalid videoId'')
         else
           io_bind (Video_findById env (params_videoId req)) (\<lambda>found.
           case found of
             None \<Rightarrow> throw (ApiError 404 ''No video found'')
           | Some v \<Rightarrow>
               io_bind (not_owner v req) (\<lambda>foreign.
               if foreign
               then throw (ApiError 403 ''You can't edit this video as you are not the owner'')
               else
                 (let setTitle = (\<lambda>d. if truthy (body_title req)
                                       then d\<lparr>title := (case body_title req of
                                                           None \<Rightarrow> [] | Some t \<Rightarrow> t)\<rparr>
                                       else d);
                      setDescription = (\<lambda>d. if truthy (body_description req)
                                             then d\<lparr>description :=
                                                      (case body_description req of
                                                         None \<Rightarrow> [] | Some t \<Rightarrow> t)\<rparr>
                                             else d)
                  in io_bind
                       (if truthy thumbnailLocalPath
                        then
                          (let oldThumbnailUrl = thumbnail v
                           in io_bind (uploadOnCloudinary env thumbnailLocalPath) (\<lambda>uploaded.
                              case uploaded of
                                None \<Rightarrow> throw (TypeError ''Cannot read properties of null'')
                              | Some up \<Rightarrow>
                                  if \<not> truthy (secure_url up)
                                  then throw (ApiError 400 ''Error while uploading thumbnail'')
                                  else
                                    io_bind (delete_old_asset env oldThumbnailUrl) (\<lambda>_.
                                    ret (\<lambda>d. d\<lparr>thumbnail := secure_url up\<rparr>))))
                        else ret (\<lambda>d. d))
                       (\<lambda>setThumbnail.
                     io_bind (Video_findByIdAndUpdate env (params_videoId req)
                                (\<lambda>d. setThumbnail (setDescription (setTitle d)))) (\<lambda>updatedVideo.
                     case updatedVideo of
                       None \<Rightarrow> throw (ApiError 500 ''Failed to update video details'')
                     | Some uv \<Rightarrow>
                         ret (json 200 200 (VideoData uv)
                                ''Video details updated successfully'')))))))"

definition deleteVideo :: "env \<Rightarrow> request \<Rightarrow> response io" where
  "deleteVideo env req =
     (if params_videoId req = None then throw (ApiError 400 ''Invalid videoId'')
      else
        io_bind (Video_findById env (params_videoId req)) (\<lambda>found.
        case found of
          None \<Rightarrow> throw (ApiError 404 ''No video found'')
        | Some v \<Rightarrow>
            io_bind (not_owner v req) (\<lambda>foreign.
            if foreign
            then throw (ApiError 400 ''You can't delete this video as you are not the owner'')
            else
              io_bind (delete_old_asset env (videoFile v)) (\<lambda>_.
              io_bind (delete_old_asset env (thumbnail v)) (\<lambda>_.
              io_bind (Video_findByIdAndDelete env (Some (video_id v))) (\<lambda>videoDeleted.
              case videoDeleted of
                None \<Rightarrow> throw (ApiError 400 ''Failed to delete the video please try again'')
              | Some _ \<Rightarrow> ret (json 200 200 NoData ''Video deleted successfully'')))))))"

section \<open>Two rotations in flight\<close>

text \<open>
  Node runs one handler at a time and switches between requests only at an \<open>await\<close>.
  \<open>refreshAccessToken\<close> awaits the store twice before it writes: the lookup of line 185
  and, inside \<open>generateAccessAndRefreshToken\<close>, the lookup of line 11.  The comparison with
  the stored token (line 191) sits between the two.  \<open>refresh_check\<close> is the handler up to
  and including that comparison, \<open>refresh_issue\<close> is the rest; both carry the
  \<open>catch\<close> of line 215.  A request in flight is at one of three points, and a schedule
  says which of two requests moves next.
\<close>

definition refresh_check :: "env \<Rightarrow> request \<Rightarrow> object_id io" where
  "refresh_check env req =
     (case js_or (cookies_refreshToken req) (body_refreshToken req) of
        None \<Rightarrow> throw (ApiError 401 ''unauthorized request'')
      | Some incomingRefreshToken \<Rightarrow>
          if incomingRefreshToken = [] then throw (ApiError 401 ''unauthorized request'')
          else
            try_catch
              (io_bind (\<lambda>w. (jwt_verify env incomingRefreshToken
                                (REFRESH_TOKEN_SECRET env) (now env), w)) (\<lambda>decodedToken.
               io_bind (User_findById env (payload_id decodedToken)) (\<lambda>found.
               case found of
                 None \<Rightarrow> throw (ApiError 401 ''Invalid refresh token'')
               | Some u \<Rightarrow>
                   if Some incomingRefreshToken \<noteq> refreshToken u
                   then throw (ApiError 401 ''Refresh token is expired or used'')
                   else ret (user_id u))))
              (\<lambda>error. throw (ApiError 401
                 (if message error = [] then ''Invalid refresh token'' else message error))))"

definition refresh_issue :: "env \<Rightarrow> object_id \<Rightarrow> response io" where
  "refresh_issue env userId =
     try_catch
       (io_bind (generateAccessAndRefreshToken env userId) (\<lambda>(accessToken, newRefreshToken).
        ret ((json 200 200 (Tokens accessToken newRefreshToken) ''Access token refreshed'')
               \<lparr>res_cookies := [(''accessToken'', accessToken),
                                (''refreshToken'', newRefreshToken)]\<rparr>)))
       (\<lambda>error. throw (ApiError 401
          (if message error = [] then ''Invalid refresh token'' else message error)))"

datatype rotation = Start request | Checked object_id | Finished "error + response"

definition advance :: "env \<Rightarrow> rotation \<Rightarrow> world \<Rightarrow> rotation \<times> world" where
  "advance env r w =
     (case r of
        Start req \<Rightarrow>
          (case refresh_check env req w of
             (Inl e, w') \<Rightarrow> (Finished (Inl e), w')
           | (Inr userId, w') \<Rightarrow> (Checked userId, w'))
      | Checked userId \<Rightarrow>
          (case refresh_issue env userId w of (out, w') \<Rightarrow> (Finished out, w'))
      | Finished out \<Rightarrow> (Finished out, w))"

text \<open>\<open>True\<close> in the schedule moves the first request, \<open>False\<close> the second.\<close>

fun run_schedule ::
    "env \<Rightarrow> env \<Rightarrow> bool list \<Rightarrow> rotation \<times> rotation \<times> world \<Rightarrow> rotation \<times> rotation \<times> world" where
  "run_schedule envA envB [] st = st"
| "run_schedule envA envB (b # bs) (ra, rb, w) =
     (if b then (case advance envA ra w of (ra', w') \<Rightarrow> run_schedule envA envB bs (ra', rb, w'))
      else (case advance envB rb w of (rb', w') \<Rightarrow> run_schedule envA envB bs (ra, rb', w')))"

definition succeeded :: "rotation \<Rightarrow> bool" where
  "succeeded r = (case r of Finished (Inr _) \<Rightarrow> True | _ \<Rightarrow> False)"

definition unauthorized :: "rotation \<Rightarrow> bool" where
  "unauthorized r = (case r of Finished (Inl (ApiError c _)) \<Rightarrow> c = 401 | _ \<Rightarrow> False)"

definition issued_refresh :: "rotation \<Rightarrow> string option" where
  "issued_refresh r =
     (case r of
        Finished (Inr resp) \<Rightarrow>
          (case res_data resp of Tokens a t \<Rightarrow> Some t | _ \<Rightarrow> None)
      | _ \<Rightarrow> None)"

section \<open>The spec's reading of optional authentication\<close>

text \<open>
  The spec: in optional mode a principal is attached exactly when the presented token
  verifies and the store returns the principal it names, with the password and the
  long-lived token stripped; otherwise none is attached.
\<close>

definition presented_token :: "request \<Rightarrow> string option" where
  "presented_token req =
     js_or (cookies_accessToken req)
       (map_option (replace_first ''Bearer '' []) (header_Authorization req))"

definition verified_claims :: "env \<Rightarrow> request \<Rightarrow> payload option" where
  "verified_claims env req =
     (case presented_token req of
        None \<Rightarrow> None
      | Some token \<Rightarrow>
          if token = [] then None
          else (case jwt_verify env token (ACCESS_TOKEN_SECRET env) (now env) of
                  Inl e \<Rightarrow> None
                | Inr claims \<Rightarrow> Some claims))"

definition referenced_principal :: "env \<Rightarrow> world \<Rightarrow> payload \<Rightarrow> user option" where
  "referenced_principal env w claims =
     (case db_fault env UserFindById of
        Some m \<Rightarrow> None
      | None \<Rightarrow> (case payload_id claims of None \<Rightarrow> None | Some k \<Rightarrow> users w k))"

definition spec_optional_principal :: "env \<Rightarrow> request \<Rightarrow> world \<Rightarrow> user option" where
  "spec_optional_principal env req w =
     (case verified_claims env req of
        None \<Rightarrow> None
      | Some claims \<Rightarrow>
          map_option select_minus_password_refreshToken (referenced_principal env w claims))"

section \<open>A concrete deployment for the examples\<close>

text \<open>
  A small signing primitive over strings: the token is the secret, the principal
  identifier and the expiry instant, the last two in unary, separated by dots.
  Verification rejects another secret and an instant at or past the expiry, as
  jsonwebtoken does.
\<close>

definition demo_sign :: "payload \<Rightarrow> string \<Rightarrow> nat \<Rightarrow> nat \<Rightarrow> string" where
  "demo_sign p secret expiresIn t =
     secret @ ''.'' @
     (case payload_id p of None \<Rightarrow> ''-'' | Some i \<Rightarrow> replicate i CHR ''u'') @ ''.'' @
     replicate (t + expiresIn) CHR ''x''"

definition demo_verify :: "string \<Rightarrow> string \<Rightarrow> nat \<Rightarrow> error + payload" where
  "demo_verify token secret t =
     (case split_on CHR ''.'' token of
        [s, c, x] \<Rightarrow>
          if s \<noteq> secret then Inl (JwtError ''invalid signature'')
          else if length x \<le> t then Inl (JwtError ''jwt expired'')
          else Inr \<lparr>payload_id = (if c = ''-'' then None else Some (length c))\<rparr>
      | _ \<Rightarrow> Inl (JwtError ''jwt malformed''))"

definition demo_upload :: "string \<Rightarrow> upload_response option" where
  "demo_upload p =
     Some \<lparr>url = Some ''http://res.cloudinary.com/demo/image/upload/v2/new.jpg'',
           secure_url = Some ''https://res.cloudinary.com/demo/image/upload/v2/new.jpg'',
           response_duration = None\<rparr>"

definition demo_env :: "nat \<Rightarrow> env" where
  "demo_env t =
     \<lparr>now = t,
      ACCESS_TOKEN_SECRET = ''as'', ACCESS_TOKEN_EXPIRY = 2,
      REFRESH_TOKEN_SECRET = ''rs'', REFRESH_TOKEN_EXPIRY = 5,
      jwt_sign = demo_sign, jwt_verify = demo_verify,
      cloud_upload = demo_upload,
      cloud_destroy = (\<lambda>publicId resourceType. Some ''ok''),
      db_fault = (\<lambda>op. None),
      fresh_id = 9\<rparr>"

definition demo_token :: string where
  "demo_token = demo_sign \<lparr>payload_id = Some 1\<rparr> ''rs'' 5 0"

definition demo_user :: user where
  "demo_user =
     \<lparr>user_id = 1, username = ''ann'', email = ''ann@example.org'', fullName = ''Ann'',
      password = Some ''hash'', refreshToken = Some demo_token,
      avatar = Some ''https://res.cloudinary.com/demo/image/upload/v1/old.jpg'',
      coverImage = Some ''https://res.cloudinary.com/demo/image/upload/v1/cover.jpg''\<rparr>"

definition demo_video :: video where
  "demo_video =
     \<lparr>video_id = 7, title = ''clip'', description = ''a clip'', duration = Some 12,
      videoFile = Some ''https://res.cloudinary.com/demo/video/upload/v1/clip.mp4'',
      thumbnail = Some ''https://res.cloudinary.com/demo/image/upload/v1/thumb.jpg'',
      views = 0, owner = Some 1, isPublished = True\<rparr>"

definition demo_world :: world where
  "demo_world =
     \<lparr>users = [1 \<mapsto> demo_user], videos = [7 \<mapsto> demo_video],
      files = {''/tmp/a.png'', ''/tmp/b.mp4''}, trace = []\<rparr>"

definition demo_request :: request where
  "demo_request =
     \<lparr>cookies_accessToken = None, cookies_refreshToken = None,
      header_Authorization = None, body_refreshToken = None,
      body_title = None, body_description = None, params_videoId = None,
      file_path = None, files_videoFile_path = None, files_thumbnail_path = None,
      req_user = None\<rparr>"

section \<open>The contract of the signing primitive\<close>

text \<open>
  What the handlers need of jsonwebtoken for one issued token: the token signed now for
  \<open>claims\<close> under \<open>secret\<close> is a non-empty string, and verifying it under the same secret
  returns exactly \<open>claims\<close> at every instant before \<open>now + expiresIn\<close> and throws from
  that instant on.
\<close>

definition signing_contract :: "env \<Rightarrow> payload \<Rightarrow> string \<Rightarrow> nat \<Rightarrow> bool" where
  "signing_contract env claims secret expiresIn =
     (jwt_sign env claims secret expiresIn (now env) \<noteq> [] \<and>
      (\<forall>t. case jwt_verify env (jwt_sign env claims secret expiresIn (now env)) secret t of
             Inl e \<Rightarrow> now env + expiresIn \<le> t
           | Inr c \<Rightarrow> t < now env + expiresIn \<and> c = claims))"

section \<open>Vocabulary of the properties\<close>

text \<open>The call of \<open>cloudinary.uploader.destroy\<close> that \<open>deleteFromCloudinary\<close> issues
  for a remote reference: none for a missing or empty one.\<close>

definition destroy_attempt :: "string option \<Rightarrow> event list" where
  "destroy_attempt ref =
     (case ref of
        None \<Rightarrow> []
      | Some u \<Rightarrow>
          if u = [] then []
          else [CloudDestroy (hd (split_on CHR ''.'' (last (split_on CHR ''/'' u))))
                  (if js_includes u ''/video/upload/'' then ''video''
                   else if js_includes u ''/image/upload/'' then ''image''
                   else ''auto'')])"

text \<open>The class of a failure, by the status of the \<open>ApiError\<close> that reaches the caller.\<close>

definition client_caused :: "error \<Rightarrow> bool" where
  "client_caused e = (case e of ApiError c m \<Rightarrow> 400 \<le> c \<and> c < 500 | _ \<Rightarrow> False)"

definition server_caused :: "error \<Rightarrow> bool" where
  "server_caused e = (case e of ApiError c m \<Rightarrow> 500 \<le> c \<and> c < 600 | _ \<Rightarrow> False)"

text \<open>The outcome the spec asks of two rotations of principal \<open>k\<close> that present the same
  token: one succeeded, the other failed with status 401, and the stored token is the
  one issued to the winner.\<close>

definition one_rotation_wins :: "rotation \<times> rotation \<times> world \<Rightarrow> object_id \<Rightarrow> bool" where
  "one_rotation_wins st k =
     (case st of
        (ra, rb, w) \<Rightarrow>
          (succeeded ra \<and> unauthorized rb \<and>
             map_option refreshToken (users w k) = Some (issued_refresh ra)) \<or>
          (succeeded rb \<and> unauthorized ra \<and>
             map_option refreshToken (users w k) = Some (issued_refresh rb)))"

definition both_rotations_win :: "rotation \<times> rotation \<times> world \<Rightarrow> bool" where
  "both_rotations_win st = (case st of (ra, rb, w) \<Rightarrow> succeeded ra \<and> succeeded rb)"

section \<open>Staged uploads\<close>

lemmas io_defs = ret_def throw_def io_bind_def try_catch_def emit_def

lemma uploadOnCloudinary_staged:
  assumes "p \<noteq> []" and "p \<in> files w"
  shows "uploadOnCloudinary env (Some p) w =
           (Inr (cloud_upload env p),
            w\<lparr>trace := trace w @ [CloudUpload p, FsUnlink p], files := files w - {p}\<rparr>)"
  using assms
  by (cases "cloud_upload env p")
     (simp_all add: uploadOnCloudinary_def cloudinary_upload_def unlinkSync_def io_defs)

text \<open>
  Claim C4.  For every call of \<open>uploadOnCloudinary\<close> with a present path whose staged
  file exists, the call makes exactly one \<open>fs.unlinkSync\<close> of that file, whether the
  remote upload succeeds (the result is the response) or fails (the result is \<open>null\<close>),
  and the file is gone afterwards.
\<close>

theorem staged_file_deleted_exactly_once:
  assumes "p \<noteq> []" and "p \<in> files w"
  shows "case uploadOnCloudinary env (Some p) w of
           (r, w') \<Rightarrow>
             r = Inr (cloud_upload env p) \<and>
             trace w' = trace w @ [CloudUpload p, FsUnlink p] \<and>
             count_list (trace w') (FsUnlink p) = count_list (trace w) (FsUnlink p) + 1 \<and>
             p \<notin> files w'"
  using assms by (simp add: uploadOnCloudinary_staged)

theorem staged_file_deleted_exactly_once_witness:
  "(case uploadOnCloudinary (demo_env 0) (Some ''/tmp/a.png'') demo_world of
      (r, w') \<Rightarrow>
        r = Inr (demo_upload ''/tmp/a.png'') \<and>
        count_list (trace w') (FsUnlink ''/tmp/a.png'') = 1 \<and>
        ''/tmp/a.png'' \<notin> files w') \<and>
   (case uploadOnCloudinary ((demo_env 0)\<lparr>cloud_upload := (\<lambda>p. None)\<rparr>)
           (Some ''/tmp/a.png'') demo_world of
      (r, w') \<Rightarrow>
        r = Inr None \<and>
        count_list (trace w') (FsUnlink ''/tmp/a.png'') = 1 \<and>
        ''/tmp/a.png'' \<notin> files w')"
  using staged_file_deleted_exactly_once [of "''/tmp/a.png''" demo_world "demo_env 0"]
        staged_file_deleted_exactly_once [of "''/tmp/a.png''" demo_world
          "(demo_env 0)\<lparr>cloud_upload := (\<lambda>p. None)\<rparr>"]
  by (simp add: demo_world_def demo_env_def split: prod.splits)

section \<open>Rotation\<close>

lemma generateAccessAndRefreshToken_ok:
  assumes "db_fault env UserFindById = None" and "db_fault env UserSave = None"
    and "users w k = Some u"
  shows "generateAccessAndRefreshToken env k w =
           (Inr (generateAccessToken env u, generateRefreshToken env u),
            w\<lparr>users := (users w)(user_id u \<mapsto> u\<lparr>refreshToken := Some (generateRefreshToken env u)\<rparr>),
              trace := trace w @ [DbWrite UserSave (user_id u)]\<rparr>)"
  using assms
  by (simp add: generateAccessAndRefreshToken_def User_findById_def User_save_def
        db_call_def io_defs Let_def)

lemma generateAccessAndRefreshToken_fails:
  assumes "generateAccessAndRefreshToken env k w = (Inl e, w')"
  shows "w' = w \<and> e = ApiError 500 '' something went wrong while generating access and refresh token''"
  using assms
  by (auto simp add: generateAccessAndRefreshToken_def User_findById_def User_save_def
        db_call_def io_defs Let_def split: option.splits if_splits prod.splits sum.splits)

lemma refreshAccessToken_fails:
  assumes "refreshAccessToken env req w = (Inl e, w')"
  shows "w' = w \<and> (\<exists>m. e = ApiError 401 m)"
proof -
  have gen: "\<And>k e' w''. generateAccessAndRefreshToken env k w = (Inl e', w'') \<Longrightarrow> w'' = w"
    using generateAccessAndRefreshToken_fails by blast
  show ?thesis
    using assms gen
    by (auto simp add: refreshAccessToken_def User_findById_def 
        db_call_def io_defs Let_def split: option.splits if_splits prod.splits sum.splits)
qed

lemma refreshAccessToken_rotates:
  assumes "js_or (cookies_refreshToken req) (body_refreshToken req) = Some T" and "T \<noteq> []"
    and "jwt_verify env T (REFRESH_TOKEN_SECRET env) (now env) = Inr claims"
    and "payload_id claims = Some k"
    and "users w k = Some u" and "user_id u = k" and "refreshToken u = Some T"
    and "db_fault env UserFindById = None" and "db_fault env UserSave = None"
  shows "refreshAccessToken env req w =
           (Inr ((json 200 200 (Tokens (generateAccessToken env u) (generateRefreshToken env u))
                    ''Access token refreshed'')
                   \<lparr>res_cookies := [(''accessToken'', generateAccessToken env u),
                                    (''refreshToken'', generateRefreshToken env u)]\<rparr>),
            w\<lparr>users := (users w)(k \<mapsto> u\<lparr>refreshToken := Some (generateRefreshToken env u)\<rparr>),
              trace := trace w @ [DbWrite UserSave k]\<rparr>)"
  using assms generateAccessAndRefreshToken_ok [of env w k u]
  by (simp add: refreshAccessToken_def User_findById_def db_call_def io_defs)

lemma refreshAccessToken_superseded:
  assumes "js_or (cookies_refreshToken req) (body_refreshToken req) = Some T"
    and "\<And>claims. jwt_verify env T (REFRESH_TOKEN_SECRET env) (now env) = Inr claims
           \<Longrightarrow> payload_id claims = Some k"
    and "users w k = Some u" and "refreshToken u \<noteq> Some T"
  shows "\<exists>m. refreshAccessToken env req w = (Inl (ApiError 401 m), w)"
proof -
  obtain out w' where run: "refreshAccessToken env req w = (out, w')"
    by (cases "refreshAccessToken env req w")
  show ?thesis
  proof (cases out)
    case (Inl e)
    with run refreshAccessToken_fails [of env req w e w'] show ?thesis by auto
  next
    case (Inr resp)
    with run assms have False
      by (auto simp add: refreshAccessToken_def User_findById_def db_call_def io_defs
            split: option.splits if_splits prod.splits sum.splits)
    then show ?thesis ..
  qed
qed

lemma demo_tokens:
  "demo_sign \<lparr>payload_id = Some 1\<rparr> ''as'' 2 0 = ''as.u.xx''"
  "demo_sign \<lparr>payload_id = Some 1\<rparr> ''rs'' 5 0 = ''rs.u.xxxxx''"
  "demo_sign \<lparr>payload_id = Some 1\<rparr> ''as'' 2 1 = ''as.u.xxx''"
  "demo_sign \<lparr>payload_id = Some 1\<rparr> ''rs'' 5 1 = ''rs.u.xxxxxx''"
  "demo_sign \<lparr>payload_id = Some 1\<rparr> ''as'' 2 2 = ''as.u.xxxx''"
  "demo_sign \<lparr>payload_id = Some 1\<rparr> ''rs'' 5 2 = ''rs.u.xxxxxxx''"
  "demo_sign \<lparr>payload_id = Some (Suc 0)\<rparr> ''as'' 2 0 = ''as.u.xx''"
  "demo_sign \<lparr>payload_id = Some (Suc 0)\<rparr> ''rs'' 5 0 = ''rs.u.xxxxx''"
  "demo_sign \<lparr>payload_id = Some (Suc 0)\<rparr> ''as'' 2 (Suc 0) = ''as.u.xxx''"
  "demo_sign \<lparr>payload_id = Some (Suc 0)\<rparr> ''rs'' 5 (Suc 0) = ''rs.u.xxxxxx''"
  "demo_sign \<lparr>payload_id = Some (Suc 0)\<rparr> ''as'' 2 2 = ''as.u.xxxx''"
  "demo_sign \<lparr>payload_id = Some (Suc 0)\<rparr> ''rs'' 5 2 = ''rs.u.xxxxxxx''"
  by (simp_all add: demo_sign_def eval_nat_numeral)

lemma demo_verify_access:
  "demo_verify ''as.u.xx'' ''as'' t =
     (if 2 \<le> t then Inl (JwtError ''jwt expired'') else Inr \<lparr>payload_id = Some 1\<rparr>)"
  by (simp add: demo_verify_def)

lemma demo_verify_refresh:
  "demo_verify ''rs.u.xxxxx'' ''rs'' t =
     (if 5 \<le> t then Inl (JwtError ''jwt expired'') else Inr \<lparr>payload_id = Some 1\<rparr>)"
  by (simp add: demo_verify_def)

text \<open>
  A rotation in the very second in which the stored token was issued: the signing
  primitive is given the same claims, secret, expiry and instant, so the newly generated
  long-lived token is the stored one again, and a second rotation presenting it succeeds
  as the first did.
\<close>

theorem rotation_reissues_token_counterexample:
  "case refreshAccessToken (demo_env 0)
          (demo_request\<lparr>cookies_refreshToken := Some demo_token\<rparr>) demo_world of
     (Inl e, w1) \<Rightarrow> False
   | (Inr resp, w1) \<Rightarrow>
       res_data resp = Tokens ''as.u.xx'' demo_token \<and>
       map_option refreshToken (users w1 1) = Some (Some demo_token) \<and>
       (case refreshAccessToken (demo_env 0)
               (demo_request\<lparr>cookies_refreshToken := Some demo_token\<rparr>) w1 of
          (Inl e, w2) \<Rightarrow> False
        | (Inr resp2, w2) \<Rightarrow> res_data resp2 = Tokens ''as.u.xx'' demo_token)"
proof -
  let ?req = "demo_request\<lparr>cookies_refreshToken := Some demo_token\<rparr>"
  let ?resp = "(json 200 200 (Tokens ''as.u.xx'' demo_token) ''Access token refreshed'')
                 \<lparr>res_cookies := [(''accessToken'', ''as.u.xx''),
                                  (''refreshToken'', demo_token)]\<rparr>"
  have same: "generateRefreshToken (demo_env 0) demo_user = demo_token"
    and access: "generateAccessToken (demo_env 0) demo_user = ''as.u.xx''"
    by (simp_all add: generateRefreshToken_def generateAccessToken_def demo_env_def
          demo_user_def demo_token_def demo_tokens)
  have keep: "demo_user\<lparr>refreshToken := Some demo_token\<rparr> = demo_user"
    by (simp add: demo_user_def)
  have presents: "js_or (cookies_refreshToken ?req) (body_refreshToken ?req) = Some demo_token"
    and nonempty: "demo_token \<noteq> []"
    and verifies: "jwt_verify (demo_env 0) demo_token (REFRESH_TOKEN_SECRET (demo_env 0))
                     (now (demo_env 0)) = Inr \<lparr>payload_id = Some 1\<rparr>"
    and up: "db_fault (demo_env 0) UserFindById = None" "db_fault (demo_env 0) UserSave = None"
    by (simp_all add: js_or_def truthy_def demo_request_def demo_token_def demo_tokens
          demo_env_def demo_verify_refresh)
  have principal: "user_id demo_user = 1" "refreshToken demo_user = Some demo_token"
    by (simp_all add: demo_user_def)
  have rot: "refreshAccessToken (demo_env 0) ?req w =
               (Inr ?resp, w\<lparr>users := (users w)(1 \<mapsto> demo_user),
                             trace := trace w @ [DbWrite UserSave 1]\<rparr>)"
    if "users w 1 = Some demo_user" for w
  proof -
    have "payload_id \<lparr>payload_id = Some (1::nat)\<rparr> = Some 1" by simp
    from refreshAccessToken_rotates [OF presents nonempty verifies this that principal up]
    show ?thesis by (simp only: same access keep)
  qed
  define w1 where "w1 = demo_world\<lparr>users := (users demo_world)(1 \<mapsto> demo_user),
                                   trace := trace demo_world @ [DbWrite UserSave 1]\<rparr>"
  have stored: "users demo_world 1 = Some demo_user"
    by (simp add: demo_world_def)
  have stored1: "users w1 1 = Some demo_user"
    by (simp add: w1_def)
  have first: "refreshAccessToken (demo_env 0) ?req demo_world = (Inr ?resp, w1)"
    unfolding w1_def by (rule rot [OF stored])
  have second: "refreshAccessToken (demo_env 0) ?req w1 =
      (Inr ?resp, w1\<lparr>users := (users w1)(1 \<mapsto> demo_user),
                     trace := trace w1 @ [DbWrite UserSave 1]\<rparr>)"
    by (rule rot [OF stored1])
  show ?thesis
    using stored1 principal by (simp add: first second json_def)
qed

text \<open>
  Claim C1, amended.  A principal's stored long-lived token is \<open>T\<close>, the store is up, and
  \<open>T\<close> verifies for that principal.  A rotation presenting \<open>T\<close> succeeds, returns and
  persists the newly generated long-lived token.  When that token differs from \<open>T\<close>, a
  second rotation presenting \<open>T\<close> right after it fails with status 401, whether \<open>T\<close>
  has expired by then or still verifies for the same principal, and leaves the world (the
  stored token included) as the first rotation left it.
\<close>

theorem rotated_token_is_rejected:
  assumes presents: "js_or (cookies_refreshToken req) (body_refreshToken req) = Some T" "T \<noteq> []"
    and stored: "users w k = Some u" "user_id u = k" "refreshToken u = Some T"
    and verifies: "jwt_verify env T (REFRESH_TOKEN_SECRET env) (now env) = Inr claims"
                  "payload_id claims = Some k"
    and store_up: "db_fault env UserFindById = None" "db_fault env UserSave = None"
    and same_claims: "\<And>c. jwt_verify env' T (REFRESH_TOKEN_SECRET env') (now env') = Inr c
                        \<Longrightarrow> payload_id c = Some k"
  shows "\<exists>resp w1.
           refreshAccessToken env req w = (Inr resp, w1) \<and>
           res_data resp = Tokens (generateAccessToken env u) (generateRefreshToken env u) \<and>
           users w1 k = Some (u\<lparr>refreshToken := Some (generateRefreshToken env u)\<rparr>) \<and>
           (generateRefreshToken env u \<noteq> T \<longrightarrow>
              (\<exists>m. refreshAccessToken env' req w1 = (Inl (ApiError 401 m), w1)))"
proof -
  let ?T2 = "generateRefreshToken env u"
  let ?w1 = "w\<lparr>users := (users w)(k \<mapsto> u\<lparr>refreshToken := Some ?T2\<rparr>),
                trace := trace w @ [DbWrite UserSave k]\<rparr>"
  have first: "refreshAccessToken env req w =
      (Inr ((json 200 200 (Tokens (generateAccessToken env u) ?T2) ''Access token refreshed'')
              \<lparr>res_cookies := [(''accessToken'', generateAccessToken env u),
                               (''refreshToken'', ?T2)]\<rparr>), ?w1)"
    by (rule refreshAccessToken_rotates [OF presents verifies stored store_up])
  have now_stored: "users ?w1 k = Some (u\<lparr>refreshToken := Some ?T2\<rparr>)" by simp
  have second: "\<exists>m. refreshAccessToken env' req ?w1 = (Inl (ApiError 401 m), ?w1)"
    if fresh: "?T2 \<noteq> T"
  proof -
    have differs: "refreshToken (u\<lparr>refreshToken := Some ?T2\<rparr>) \<noteq> Some T"
      using fresh by simp
    show ?thesis
      by (rule refreshAccessToken_superseded [OF presents(1) same_claims now_stored differs])
  qed
  show ?thesis
    using first second now_stored by (simp add: json_def)
qed

theorem rotated_token_is_rejected_witness:
  "\<exists>resp w1 m.
     refreshAccessToken (demo_env 1) (demo_request\<lparr>cookies_refreshToken := Some demo_token\<rparr>)
       demo_world = (Inr resp, w1) \<and>
     res_data resp = Tokens ''as.u.xxx'' ''rs.u.xxxxxx'' \<and>
     users w1 1 = Some (demo_user\<lparr>refreshToken := Some ''rs.u.xxxxxx''\<rparr>) \<and>
     refreshAccessToken (demo_env 1) (demo_request\<lparr>cookies_refreshToken := Some demo_token\<rparr>)
       w1 = (Inl (ApiError 401 m), w1)"
proof -
  have tokens: "generateRefreshToken (demo_env 1) demo_user = ''rs.u.xxxxxx''"
      "generateAccessToken (demo_env 1) demo_user = ''as.u.xxx''"
    and fresh: "generateRefreshToken (demo_env 1) demo_user \<noteq> demo_token"
    by (simp_all add: generateRefreshToken_def generateAccessToken_def demo_env_def
          demo_user_def demo_token_def demo_tokens)
  from rotated_token_is_rejected [where env = "demo_env 1" and env' = "demo_env 1"
      and req = "demo_request\<lparr>cookies_refreshToken := Some demo_token\<rparr>"
      and T = demo_token and w = demo_world and k = 1 and u = demo_user
      and claims = "\<lparr>payload_id = Some 1\<rparr>"]
  obtain resp w1 where
    "refreshAccessToken (demo_env 1) (demo_request\<lparr>cookies_refreshToken := Some demo_token\<rparr>)
       demo_world = (Inr resp, w1)"
    "res_data resp = Tokens (generateAccessToken (demo_env 1) demo_user)
                       (generateRefreshToken (demo_env 1) demo_user)"
    "users w1 1 = Some (demo_user\<lparr>refreshToken :=
                          Some (generateRefreshToken (demo_env 1) demo_user)\<rparr>)"
    "generateRefreshToken (demo_env 1) demo_user \<noteq> demo_token \<longrightarrow>
       (\<exists>m. refreshAccessToken (demo_env 1)
              (demo_request\<lparr>cookies_refreshToken := Some demo_token\<rparr>) w1 =
            (Inl (ApiError 401 m), w1))"
    by (auto simp add: demo_request_def demo_token_def demo_world_def demo_user_def
          demo_env_def demo_tokens demo_verify_refresh js_or_def truthy_def)
  then show ?thesis
    using fresh tokens by auto
qed

section \<open>Authentication\<close>

lemma verifyJWT_fails:
  assumes "verifyJWT env req w = (Inl e, w')"
  shows "w' = w \<and> (\<exists>m. e = ApiError 401 m)"
  using assms
  by (auto simp add: verifyJWT_def User_findById_def db_call_def io_defs
        split: option.splits sum.splits if_splits)

lemma verifyJWT_accepts:
  assumes "presented_token req = Some token" and "token \<noteq> []"
    and "jwt_verify env token (ACCESS_TOKEN_SECRET env) (now env) = Inr claims"
    and "payload_id claims = Some k" and "db_fault env UserFindById = None"
    and "users w k = Some u"
  shows "verifyJWT env req w =
           (Inr (req\<lparr>req_user := Some (select_minus_password_refreshToken u)\<rparr>), w)"
  using assms
  by (simp add: verifyJWT_def presented_token_def User_findById_def db_call_def io_defs)

lemma verifyJWT_rejects:
  assumes "presented_token req = Some token"
    and "jwt_verify env token (ACCESS_TOKEN_SECRET env) (now env) = Inl e"
  shows "\<exists>m. verifyJWT env req w = (Inl (ApiError 401 m), w)"
  using assms
  by (simp add: verifyJWT_def presented_token_def io_defs)

lemma verifyJWT_store_independent:
  assumes same: "\<And>k. map_option select_minus_password_refreshToken (users w' k) =
               map_option select_minus_password_refreshToken (users w k)"
  shows "fst (verifyJWT env req w') = fst (verifyJWT env req w)"
proof (cases "presented_token req")
  case None
  then show ?thesis by (simp add: verifyJWT_def presented_token_def io_defs)
next
  case (Some token)
  note presented = this
  show ?thesis
  proof (cases "jwt_verify env token (ACCESS_TOKEN_SECRET env) (now env)")
    case (Inl e)
    with presented show ?thesis by (simp add: verifyJWT_def presented_token_def io_defs)
  next
    case (Inr claims)
    note verified = this
    show ?thesis
    proof (cases "payload_id claims")
      case None
      with presented verified show ?thesis
        by (simp add: verifyJWT_def presented_token_def User_findById_def db_call_def io_defs
              split: option.splits)
    next
      case (Some k)
      from same [of k] consider
          (absent) "users w' k = None" "users w k = None"
        | (present) u' u where "users w' k = Some u'" "users w k = Some u"
            "select_minus_password_refreshToken u' = select_minus_password_refreshToken u"
        by (cases "users w' k"; cases "users w k") auto
      then show ?thesis
      proof cases
        case absent
        with presented verified Some show ?thesis
          by (simp add: verifyJWT_def presented_token_def User_findById_def db_call_def io_defs
                split: option.splits)
      next
        case present
        with presented verified Some show ?thesis
          by (simp add: verifyJWT_def presented_token_def User_findById_def db_call_def io_defs
                split: option.splits)
      qed
    qed
  qed
qed

text \<open>
  Claim C8.  \<open>verifyJWTOptional\<close> never fails and never touches the world: for every
  request it hands a request on to \<open>next()\<close>.  That request carries a principal exactly
  when the presented token verifies and the store returns the principal it names (then
  the stripped principal is attached); with a missing, malformed or expired token, or a
  principal that no longer exists, the request is handed on as it came.
\<close>

theorem verifyJWTOptional_always_proceeds:
  "verifyJWTOptional env req w =
     (Inr (case spec_optional_principal env req w of
             None \<Rightarrow> req
           | Some u \<Rightarrow> req\<lparr>req_user := Some u\<rparr>), w)"
  by (auto simp add: verifyJWTOptional_def spec_optional_principal_def verified_claims_def
        referenced_principal_def presented_token_def User_findById_def db_call_def io_defs
        split: option.splits sum.splits)

theorem verifyJWTOptional_always_proceeds_witness:
  "verifyJWTOptional (demo_env 1) (demo_request\<lparr>cookies_accessToken := Some ''as.u.xx''\<rparr>)
     demo_world =
     (Inr (demo_request\<lparr>cookies_accessToken := Some ''as.u.xx'',
             req_user := Some (demo_user\<lparr>password := None, refreshToken := None\<rparr>)\<rparr>),
      demo_world) \<and>
   verifyJWTOptional (demo_env 2) (demo_request\<lparr>cookies_accessToken := Some ''as.u.xx''\<rparr>)
     demo_world =
     (Inr (demo_request\<lparr>cookies_accessToken := Some ''as.u.xx''\<rparr>), demo_world) \<and>
   verifyJWTOptional (demo_env 1) demo_request demo_world = (Inr demo_request, demo_world) \<and>
   verifyJWTOptional (demo_env 1) (demo_request\<lparr>header_Authorization := Some ''Bearer junk''\<rparr>)
     demo_world =
     (Inr (demo_request\<lparr>header_Authorization := Some ''Bearer junk''\<rparr>), demo_world) \<and>
   verifyJWTOptional (demo_env 1) (demo_request\<lparr>cookies_accessToken := Some ''as.uuu.xx''\<rparr>)
     demo_world =
     (Inr (demo_request\<lparr>cookies_accessToken := Some ''as.uuu.xx''\<rparr>), demo_world)"
  using verifyJWTOptional_always_proceeds [where env = "demo_env 1" and req = "demo_request\<lparr>cookies_accessToken := Some ''as.u.xx''\<rparr>" and w = demo_world]
        verifyJWTOptional_always_proceeds [where env = "demo_env 2" and req = "demo_request\<lparr>cookies_accessToken := Some ''as.u.xx''\<rparr>" and w = demo_world]
        verifyJWTOptional_always_proceeds [where env = "demo_env 1" and req = demo_request and w = demo_world]
        verifyJWTOptional_always_proceeds [where env = "demo_env 1" and req = "demo_request\<lparr>header_Authorization := Some ''Bearer junk''\<rparr>" and w = demo_world]
        verifyJWTOptional_always_proceeds [where env = "demo_env 1" and req = "demo_request\<lparr>cookies_accessToken := Some ''as.uuu.xx''\<rparr>" and w = demo_world]
  by (simp add: spec_optional_principal_def verified_claims_def referenced_principal_def
        presented_token_def js_or_def truthy_def select_minus_password_refreshToken_def
        demo_env_def demo_world_def demo_request_def demo_verify_def)

lemma verifyJWT_auth_middleware_unauthorized:
  "\<exists>m. verifyJWT_auth_middleware env req w = (Inl (ApiError 401 m), w)"
  by (simp add: verifyJWT_auth_middleware_def jwt_verifyJWT_def io_defs
        split: option.splits)

lemma verifyJWT_world: "snd (verifyJWT env req w) = w"
  by (auto simp add: verifyJWT_def User_findById_def db_call_def io_defs
        split: option.splits sum.splits)

lemma verifyJWT_after_issue:
  assumes issue: "generateAccessAndRefreshToken env k w = (Inr (accessToken, newRefreshToken), w')"
    and stored: "users w k = Some u" "user_id u = k"
    and contract: "signing_contract env \<lparr>payload_id = Some k\<rparr>
                     (ACCESS_TOKEN_SECRET env) (ACCESS_TOKEN_EXPIRY env)"
    and presents: "cookies_accessToken req = Some accessToken"
  shows "t < now env + ACCESS_TOKEN_EXPIRY env \<Longrightarrow>
           verifyJWT (env\<lparr>now := t\<rparr>) req w' =
             (Inr (req\<lparr>req_user := Some (u\<lparr>password := None, refreshToken := None\<rparr>)\<rparr>), w')"
    and "now env + ACCESS_TOKEN_EXPIRY env \<le> t \<Longrightarrow>
           \<exists>m. verifyJWT (env\<lparr>now := t\<rparr>) req w' = (Inl (ApiError 401 m), w')"
proof -
  have up: "db_fault env UserFindById = None" "db_fault env UserSave = None"
    using issue stored
    by (auto simp add: generateAccessAndRefreshToken_def User_findById_def User_save_def
          db_call_def io_defs split: option.splits)
  have tok: "accessToken = generateAccessToken env u"
    and w': "w' = w\<lparr>users := (users w)(k \<mapsto> u\<lparr>refreshToken := Some (generateRefreshToken env u)\<rparr>),
                   trace := trace w @ [DbWrite UserSave k]\<rparr>"
    using issue generateAccessAndRefreshToken_ok [OF up stored(1)] stored(2) by auto
  have nonempty: "accessToken \<noteq> []"
    using contract stored(2) by (simp add: signing_contract_def tok generateAccessToken_def)
  have pres: "presented_token req = Some accessToken"
    using presents nonempty by (simp add: presented_token_def js_or_def truthy_def)
  have verdict: "case jwt_verify env accessToken (ACCESS_TOKEN_SECRET env) t of
             Inl e \<Rightarrow> now env + ACCESS_TOKEN_EXPIRY env \<le> t
           | Inr c \<Rightarrow> t < now env + ACCESS_TOKEN_EXPIRY env \<and> c = \<lparr>payload_id = Some k\<rparr>"
    using contract stored(2) by (simp add: signing_contract_def tok generateAccessToken_def)
  {
    assume "t < now env + ACCESS_TOKEN_EXPIRY env"
    with verdict have "jwt_verify env accessToken (ACCESS_TOKEN_SECRET env) t = Inr \<lparr>payload_id = Some k\<rparr>"
      by (cases "jwt_verify env accessToken (ACCESS_TOKEN_SECRET env) t") simp_all
    then show "verifyJWT (env\<lparr>now := t\<rparr>) req w' =
             (Inr (req\<lparr>req_user := Some (u\<lparr>password := None, refreshToken := None\<rparr>)\<rparr>), w')"
      using verifyJWT_accepts [of req accessToken "env\<lparr>now := t\<rparr>" "\<lparr>payload_id = Some k\<rparr>" k w'
              "u\<lparr>refreshToken := Some (generateRefreshToken env u)\<rparr>"] pres nonempty up w'
      by (simp add: select_minus_password_refreshToken_def)
  }
  {
    assume "now env + ACCESS_TOKEN_EXPIRY env \<le> t"
    with verdict obtain e where "jwt_verify env accessToken (ACCESS_TOKEN_SECRET env) t = Inl e"
      by (cases "jwt_verify env accessToken (ACCESS_TOKEN_SECRET env) t") simp_all
    then show "\<exists>m. verifyJWT (env\<lparr>now := t\<rparr>) req w' = (Inl (ApiError 401 m), w')"
      using verifyJWT_rejects [of req accessToken "env\<lparr>now := t\<rparr>" e w'] pres by simp
  }
qed

lemma demo_signing_contract:
  "signing_contract (demo_env 0) \<lparr>payload_id = Some 1\<rparr> ''as'' 2"
  by (simp add: signing_contract_def demo_env_def demo_sign_def demo_verify_def eval_nat_numeral)

text \<open>
  Claim C5, at the failing input.  A principal is issued a token pair and presents the
  short-lived token at once.  \<open>verifyJWT\<close> of src/middlewares/auth.middleware.js answers
  with status 401, because it calls \<open>jwt.verifyJWT\<close>, which jsonwebtoken does not have;
  \<open>verifyJWT\<close> of unnamed/part_001, which calls \<open>jwt.verify\<close>, attaches the stripped
  principal on the same input.
\<close>

theorem verifyJWT_auth_middleware_rejects_issued_token:
  "case generateAccessAndRefreshToken (demo_env 0) 1 demo_world of
     (Inl e, w') \<Rightarrow> False
   | (Inr (accessToken, newRefreshToken), w') \<Rightarrow>
       verifyJWT_auth_middleware (demo_env 0)
         (demo_request\<lparr>cookies_accessToken := Some accessToken\<rparr>) w' =
         (Inl (ApiError 401 ''jwt.verifyJWT is not a function''), w') \<and>
       verifyJWT (demo_env 0)
         (demo_request\<lparr>cookies_accessToken := Some accessToken\<rparr>) w' =
         (Inr (demo_request\<lparr>cookies_accessToken := Some accessToken,
                 req_user := Some (demo_user\<lparr>password := None, refreshToken := None\<rparr>)\<rparr>), w')"
  by (simp add: generateAccessAndRefreshToken_def generateAccessToken_def
        generateRefreshToken_def User_findById_def User_save_def db_call_def io_defs
        verifyJWT_auth_middleware_def jwt_verifyJWT_def verifyJWT_def
        select_minus_password_refreshToken_def js_or_def truthy_def
        demo_env_def demo_world_def demo_user_def demo_request_def demo_tokens
        demo_verify_access Let_def)

lemma logoutUser_frame:
  assumes "logoutUser env req w = (r, w')"
  shows "videos w' = videos w" and "files w' = files w"
    and "map_option (\<lambda>u. u\<lparr>refreshToken := None\<rparr>) (users w' k) =
         map_option (\<lambda>u. u\<lparr>refreshToken := None\<rparr>) (users w k)"
  using assms
  by (auto simp add: logoutUser_def User_findByIdAndUpdate_def db_call_def io_defs
        split: option.splits if_splits)

lemma logoutUser_clears:
  assumes "req_user req = Some ru" and "users w (user_id ru) = Some u"
    and "db_fault env UserFindByIdAndUpdate = None"
  shows "\<exists>resp w'. logoutUser env req w = (Inr resp, w') \<and>
           users w' = (users w)(user_id ru \<mapsto> u\<lparr>refreshToken := None\<rparr>)"
  using assms
  by (simp add: logoutUser_def User_findByIdAndUpdate_def db_call_def io_defs)

text \<open>
  Claim C7.  \<open>logoutUser\<close> changes nothing in the world but the \<open>refreshToken\<close> field of
  users (videos and files are untouched, and every user document is the same up to that
  field); when the store is up it removes the field from the caller's document; and
  \<open>verifyJWT\<close> gives, for every request at every instant, the same outcome after the
  logout as before it, so a short-lived token issued earlier is accepted until its own
  expiry.  The documents of all other principals are untouched.
\<close>

theorem revoke_keeps_short_tokens_valid:
  "case logoutUser env req w of
     (r, w') \<Rightarrow>
       videos w' = videos w \<and> files w' = files w \<and>
       (\<forall>k. map_option (\<lambda>u. u\<lparr>refreshToken := None\<rparr>) (users w' k) =
            map_option (\<lambda>u. u\<lparr>refreshToken := None\<rparr>) (users w k)) \<and>
       (\<forall>ru u. req_user req = Some ru \<and> users w (user_id ru) = Some u \<and>
               db_fault env UserFindByIdAndUpdate = None \<longrightarrow>
               users w' (user_id ru) = Some (u\<lparr>refreshToken := None\<rparr>)) \<and>
       (\<forall>env' req'. verifyJWT env' req' w' = (fst (verifyJWT env' req' w), w')) \<and>
       (\<forall>k. map_option user_id (req_user req) \<noteq> Some k \<longrightarrow> users w' k = users w k)"
proof -
  obtain r w' where run: "logoutUser env req w = (r, w')"
    by (cases "logoutUser env req w")
  note frame = logoutUser_frame [OF run]
  have others: "users w' k = users w k" if "map_option user_id (req_user req) \<noteq> Some k" for k
    using run that
    by (auto simp add: logoutUser_def User_findByIdAndUpdate_def db_call_def io_defs
          split: option.splits if_splits)
  have sel: "map_option select_minus_password_refreshToken x =
             map_option (\<lambda>v. v\<lparr>password := None\<rparr>)
               (map_option (\<lambda>u. u\<lparr>refreshToken := None\<rparr>) x)" for x
    by (cases x) (simp_all add: select_minus_password_refreshToken_def)
  have strip: "map_option select_minus_password_refreshToken (users w' k) =
               map_option select_minus_password_refreshToken (users w k)" for k
    by (simp only: sel frame(3) [of k])
  have auth: "verifyJWT env' req' w' = (fst (verifyJWT env' req' w), w')" for env' req'
    using verifyJWT_store_independent [of w' w env' req', OF strip]
          verifyJWT_world [of env' req' w']
    by (metis prod.collapse)
  have cleared: "users w' (user_id ru) = Some (u\<lparr>refreshToken := None\<rparr>)"
    if "req_user req = Some ru" "users w (user_id ru) = Some u"
       "db_fault env UserFindByIdAndUpdate = None" for ru u
    using logoutUser_clears [OF that, of] run by auto
  show ?thesis
    using run frame(1,2) frame(3) auth cleared others by auto
qed

theorem revoke_keeps_short_tokens_valid_witness:
  "users (snd (logoutUser (demo_env 1) (demo_request\<lparr>req_user := Some demo_user\<rparr>) demo_world)) 1 =
     Some (demo_user\<lparr>refreshToken := None\<rparr>) \<and>
   fst (verifyJWT (demo_env 1) (demo_request\<lparr>cookies_accessToken := Some ''as.u.xx''\<rparr>)
     demo_world) =
     Inr (demo_request\<lparr>cookies_accessToken := Some ''as.u.xx'',
            req_user := Some (demo_user\<lparr>password := None, refreshToken := None\<rparr>)\<rparr>) \<and>
   fst (verifyJWT (demo_env 1) (demo_request\<lparr>cookies_accessToken := Some ''as.u.xx''\<rparr>)
     (snd (logoutUser (demo_env 1) (demo_request\<lparr>req_user := Some demo_user\<rparr>) demo_world))) =
     Inr (demo_request\<lparr>cookies_accessToken := Some ''as.u.xx'',
            req_user := Some (demo_user\<lparr>password := None, refreshToken := None\<rparr>)\<rparr>)"
proof -
  let ?R = "demo_request\<lparr>req_user := Some demo_user\<rparr>"
  let ?A = "demo_request\<lparr>cookies_accessToken := Some ''as.u.xx''\<rparr>"
  obtain r w' where run: "logoutUser (demo_env 1) ?R demo_world = (r, w')"
    by (cases "logoutUser (demo_env 1) ?R demo_world")
  from revoke_keeps_short_tokens_valid [where env = "demo_env 1" and req = ?R and w = demo_world] run
  have cleared: "\<forall>ru u. req_user ?R = Some ru \<and> users demo_world (user_id ru) = Some u \<and>
               db_fault (demo_env 1) UserFindByIdAndUpdate = None \<longrightarrow>
               users w' (user_id ru) = Some (u\<lparr>refreshToken := None\<rparr>)"
    and auth: "\<forall>env' req'. verifyJWT env' req' w' = (fst (verifyJWT env' req' demo_world), w')"
    by simp_all
  have before: "fst (verifyJWT (demo_env 1) ?A demo_world) =
      Inr (?A\<lparr>req_user := Some (demo_user\<lparr>password := None, refreshToken := None\<rparr>)\<rparr>)"
    by (simp add: verifyJWT_def User_findById_def db_call_def io_defs js_or_def truthy_def
          select_minus_password_refreshToken_def demo_env_def demo_world_def demo_request_def
          demo_verify_access)
  have "users w' 1 = Some (demo_user\<lparr>refreshToken := None\<rparr>)"
    using cleared [rule_format, of demo_user demo_user]
    by (simp add: demo_env_def demo_world_def demo_user_def)
  moreover have "fst (verifyJWT (demo_env 1) ?A w') = fst (verifyJWT (demo_env 1) ?A demo_world)"
    using auth by simp
  ultimately show ?thesis
    using run before by simp
qed

section \<open>Asset replacement\<close>

lemma uploadOnCloudinary_upload_fails:
  assumes "p \<noteq> []" and "cloud_upload env p = None"
  shows "uploadOnCloudinary env (Some p) w =
           (if p \<in> files w then Inr None else Inl (FsError ''ENOENT: no such file or directory''),
            w\<lparr>trace := trace w @ [CloudUpload p, FsUnlink p], files := files w - {p}\<rparr>)"
  using assms
  by (simp add: uploadOnCloudinary_def cloudinary_upload_def unlinkSync_def io_defs)

lemma deleteFromCloudinary_run:
  "\<exists>r. deleteFromCloudinary env ref w = (Inr r, w\<lparr>trace := trace w @ destroy_attempt ref\<rparr>)"
  by (cases "cloud_destroy env (hd (split_on CHR ''.'' (last (split_on CHR ''/'' (the ref)))))
                (if js_includes (the ref) ''/video/upload/'' then ''video''
                   else if js_includes (the ref) ''/image/upload/'' then ''image''
                   else ''auto'')")
     (auto simp add: deleteFromCloudinary_def cloudinary_destroy_def destroy_attempt_def io_defs
        Let_def split: option.splits)

lemma delete_old_asset_run:
  "delete_old_asset env ref w = (Inr (), w\<lparr>trace := trace w @ destroy_attempt ref\<rparr>)"
proof -
  obtain r where "deleteFromCloudinary env ref w =
      (Inr r, w\<lparr>trace := trace w @ destroy_attempt ref\<rparr>)"
    using deleteFromCloudinary_run by blast
  then show ?thesis
    by (auto simp add: delete_old_asset_def io_defs truthy_def destroy_attempt_def
          split: option.splits)
qed

text \<open>
  Claim C6.  When the remote upload of the staged file fails, avatar replacement and
  cover-image replacement raise an error to the caller, leave every user document (and
  so the slot reference) as it was, issue no \<open>cloudinary.uploader.destroy\<close> at all (the
  only new events are the upload attempt and the unlink), and the staged file does not
  exist afterwards.
\<close>

theorem failed_upload_changes_nothing:
  assumes "file_path req = Some p" and "p \<noteq> []" and "cloud_upload env p = None"
  shows "(case updateUserAvatar env req w of
            (r, w') \<Rightarrow>
              (\<exists>e. r = Inl e) \<and> users w' = users w \<and> videos w' = videos w \<and>
              trace w' = trace w @ [CloudUpload p, FsUnlink p] \<and> p \<notin> files w') \<and>
         (case updateUserCoverImage env req w of
            (r, w') \<Rightarrow>
              (\<exists>e. r = Inl e) \<and> users w' = users w \<and> videos w' = videos w \<and>
              trace w' = trace w @ [CloudUpload p, FsUnlink p] \<and> p \<notin> files w')"
  using assms uploadOnCloudinary_upload_fails [of p env w]
  by (simp add: updateUserAvatar_def updateUserCoverImage_def truthy_def io_defs)

theorem failed_upload_changes_nothing_witness:
  "(case updateUserAvatar ((demo_env 0)\<lparr>cloud_upload := (\<lambda>p. None)\<rparr>)
           (demo_request\<lparr>file_path := Some ''/tmp/a.png'', req_user := Some demo_user\<rparr>)
           demo_world of
      (r, w') \<Rightarrow>
        r = Inl (ApiError 400 ''Error while uploading avatar'') \<and>
        users w' = users demo_world \<and>
        trace w' = [CloudUpload ''/tmp/a.png'', FsUnlink ''/tmp/a.png''] \<and>
        ''/tmp/a.png'' \<notin> files w') \<and>
   (case updateUserCoverImage ((demo_env 0)\<lparr>cloud_upload := (\<lambda>p. None)\<rparr>)
           (demo_request\<lparr>file_path := Some ''/tmp/a.png'', req_user := Some demo_user\<rparr>)
           demo_world of
      (r, w') \<Rightarrow>
        r = Inl (ApiError 400 ''Error while uploading cover image'') \<and>
        users w' = users demo_world \<and>
        trace w' = [CloudUpload ''/tmp/a.png'', FsUnlink ''/tmp/a.png''] \<and>
        ''/tmp/a.png'' \<notin> files w')"
proof -
  let ?env = "(demo_env 0)\<lparr>cloud_upload := (\<lambda>p. None)\<rparr>"
  let ?req = "demo_request\<lparr>file_path := Some ''/tmp/a.png'', req_user := Some demo_user\<rparr>"
  have path: "file_path ?req = Some ''/tmp/a.png''" and nonempty: "''/tmp/a.png'' \<noteq> []"
    and down: "cloud_upload ?env ''/tmp/a.png'' = None"
    by (simp_all add: demo_env_def)
  have staged: "''/tmp/a.png'' \<in> files demo_world" and log: "trace demo_world = []"
    by (simp_all add: demo_world_def)
  have avatar: "fst (updateUserAvatar ?env ?req demo_world) =
      Inl (ApiError 400 ''Error while uploading avatar'')"
    and cover: "fst (updateUserCoverImage ?env ?req demo_world) =
      Inl (ApiError 400 ''Error while uploading cover image'')"
    using uploadOnCloudinary_upload_fails [OF nonempty down, of demo_world] staged
    by (simp_all add: updateUserAvatar_def updateUserCoverImage_def truthy_def io_defs)
  show ?thesis
    using failed_upload_changes_nothing [OF path nonempty down, of demo_world] avatar cover log
    by (auto split: prod.splits)
qed

section \<open>Status of an upload failure\<close>

text \<open>
  Claim C9, at the failing input.  The remote upload of the staged file fails.  Avatar
  replacement and cover-image replacement surface it to the caller as an \<open>ApiError\<close> of
  status 400, a client-caused failure and not a server-caused one.  (\<open>publishAVideo\<close>
  of the first generation of the video controller surfaces the same failure with
  status 500, see \<open>upload_failure_status\<close>.)
\<close>

theorem upload_failure_answered_with_400:
  "fst (updateUserAvatar ((demo_env 0)\<lparr>cloud_upload := (\<lambda>p. None)\<rparr>)
          (demo_request\<lparr>file_path := Some ''/tmp/a.png'', req_user := Some demo_user\<rparr>)
          demo_world) = Inl (ApiError 400 ''Error while uploading avatar'') \<and>
   fst (updateUserCoverImage ((demo_env 0)\<lparr>cloud_upload := (\<lambda>p. None)\<rparr>)
          (demo_request\<lparr>file_path := Some ''/tmp/a.png'', req_user := Some demo_user\<rparr>)
          demo_world) = Inl (ApiError 400 ''Error while uploading cover image'') \<and>
   client_caused (ApiError 400 ''Error while uploading avatar'') \<and>
   \<not> server_caused (ApiError 400 ''Error while uploading avatar'') \<and>
   client_caused (ApiError 400 ''Error while uploading cover image'') \<and>
   \<not> server_caused (ApiError 400 ''Error while uploading cover image'')"
proof -
  let ?env = "(demo_env 0)\<lparr>cloud_upload := (\<lambda>p. None)\<rparr>"
  have "uploadOnCloudinary ?env (Some ''/tmp/a.png'') demo_world =
          (Inr None, demo_world\<lparr>trace := trace demo_world @ [CloudUpload ''/tmp/a.png'', FsUnlink ''/tmp/a.png''],
                      files := files demo_world - {''/tmp/a.png''}\<rparr>)"
    using uploadOnCloudinary_upload_fails [of "''/tmp/a.png''" ?env demo_world]
    by (simp add: demo_env_def demo_world_def)
  then show ?thesis
    by (simp add: updateUserAvatar_def updateUserCoverImage_def truthy_def io_defs
          client_caused_def server_caused_def)
qed

lemma publish_uploads:
  assumes "vp \<noteq> []" and "tp \<noteq> []" and "vp \<in> files w" and "tp \<in> files w" and "vp \<noteq> tp"
  shows "io_bind (uploadOnCloudinary env (Some vp)) (\<lambda>a.
         io_bind (uploadOnCloudinary env (Some tp)) (\<lambda>b. f a b)) w =
         f (cloud_upload env vp) (cloud_upload env tp)
           (w\<lparr>trace := trace w @ [CloudUpload vp, FsUnlink vp, CloudUpload tp, FsUnlink tp],
              files := files w - {vp} - {tp}\<rparr>)"
  using assms uploadOnCloudinary_staged [of vp w env]
    uploadOnCloudinary_staged [of tp "w\<lparr>trace := trace w @ [CloudUpload vp, FsUnlink vp],
       files := files w - {vp}\<rparr>" env]
  by (simp add: io_defs)

text \<open>
  The status of a failed upload of an existing staged file, handler by handler: 400 in
  avatar replacement, in cover-image replacement and in \<open>publishAVideo\<close> of the second
  generation of the video controller, 500 in \<open>publishAVideo\<close> of the first generation.
\<close>

lemma upload_failure_status:
  assumes single: "file_path req = Some p" "p \<noteq> []" "p \<in> files w" "cloud_upload env p = None"
    and fields: "truthy (body_title reqP)" "truthy (body_description reqP)"
    and paths: "files_videoFile_path reqP = Some vp" "files_thumbnail_path reqP = Some tp"
      "vp \<noteq> []" "tp \<noteq> []" "vp \<in> files w" "tp \<in> files w" "vp \<noteq> tp"
    and failed: "cloud_upload env vp = None \<or> cloud_upload env tp = None"
  shows "fst (updateUserAvatar env req w) = Inl (ApiError 400 ''Error while uploading avatar'') \<and>
         fst (updateUserCoverImage env req w) =
           Inl (ApiError 400 ''Error while uploading cover image'') \<and>
         fst (publishAVideo env reqP w) =
           Inl (ApiError 500 (if cloud_upload env vp = None then ''Video file upload failed''
                              else ''Thumbnail upload failed'')) \<and>
         fst (publishAVideo_2 env reqP w) =
           Inl (ApiError 400 (if cloud_upload env vp = None then ''Video file upload failed''
                              else ''Thumbnail upload failed''))"
proof -
  have a: "fst (updateUserAvatar env req w) = Inl (ApiError 400 ''Error while uploading avatar'')"
    and c: "fst (updateUserCoverImage env req w) =
           Inl (ApiError 400 ''Error while uploading cover image'')"
    using single uploadOnCloudinary_upload_fails [of p env w]
    by (simp_all add: updateUserAvatar_def updateUserCoverImage_def truthy_def io_defs)
  have p1: "fst (publishAVideo env reqP w) =
           Inl (ApiError 500 (if cloud_upload env vp = None then ''Video file upload failed''
                              else ''Thumbnail upload failed''))"
    using fields paths failed
    by (auto simp add: publishAVideo_def publish_uploads truthy_def throw_def
          split: option.splits)
  have p2: "fst (publishAVideo_2 env reqP w) =
           Inl (ApiError 400 (if cloud_upload env vp = None then ''Video file upload failed''
                              else ''Thumbnail upload failed''))"
    using fields paths failed
    by (auto simp add: publishAVideo_2_def publish_uploads truthy_def throw_def
          split: option.splits)
  show ?thesis using a c p1 p2 by simp
qed

lemma upload_failure_status_demo:
  "fst (updateUserAvatar ((demo_env 0)\<lparr>cloud_upload := (\<lambda>p. None)\<rparr>)
          (demo_request\<lparr>file_path := Some ''/tmp/a.png'', req_user := Some demo_user\<rparr>)
          demo_world) = Inl (ApiError 400 ''Error while uploading avatar'') \<and>
   fst (updateUserCoverImage ((demo_env 0)\<lparr>cloud_upload := (\<lambda>p. None)\<rparr>)
          (demo_request\<lparr>file_path := Some ''/tmp/a.png'', req_user := Some demo_user\<rparr>)
          demo_world) = Inl (ApiError 400 ''Error while uploading cover image'') \<and>
   fst (publishAVideo ((demo_env 0)\<lparr>cloud_upload := (\<lambda>p. None)\<rparr>)
          (demo_request\<lparr>body_title := Some ''clip'', body_description := Some ''a clip'',
             files_videoFile_path := Some ''/tmp/b.mp4'',
             files_thumbnail_path := Some ''/tmp/a.png'', req_user := Some demo_user\<rparr>)
          demo_world) = Inl (ApiError 500 ''Video file upload failed'') \<and>
   fst (publishAVideo_2 ((demo_env 0)\<lparr>cloud_upload := (\<lambda>p. None)\<rparr>)
          (demo_request\<lparr>body_title := Some ''clip'', body_description := Some ''a clip'',
             files_videoFile_path := Some ''/tmp/b.mp4'',
             files_thumbnail_path := Some ''/tmp/a.png'', req_user := Some demo_user\<rparr>)
          demo_world) = Inl (ApiError 400 ''Video file upload failed'')"
  using upload_failure_status [where env = "(demo_env 0)\<lparr>cloud_upload := (\<lambda>p. None)\<rparr>"
      and w = demo_world and p = "''/tmp/a.png''" and vp = "''/tmp/b.mp4''" and tp = "''/tmp/a.png''"
      and req = "demo_request\<lparr>file_path := Some ''/tmp/a.png'', req_user := Some demo_user\<rparr>"
      and reqP = "demo_request\<lparr>body_title := Some ''clip'', body_description := Some ''a clip'',
             files_videoFile_path := Some ''/tmp/b.mp4'',
             files_thumbnail_path := Some ''/tmp/a.png'', req_user := Some demo_user\<rparr>"]
  by (simp add: demo_env_def demo_world_def demo_request_def truthy_def)

section \<open>Deleting a video\<close>

text \<open>
  Claim C10.  When \<open>deleteVideo\<close> runs for the owner of a stored video, the remote
  deletes of the video file and of the thumbnail are issued first and the store delete
  comes after them.  If the store delete then fails, the handler fails, the document is
  still in the store, and both remote deletes have already been issued.
\<close>

theorem assets_destroyed_before_record_deleted:
  assumes "params_videoId req = Some i" and "db_fault env VideoFindById = None"
    and "videos w i = Some v" and "video_id v = i"
    and "owner v = Some ow" and "req_user req = Some ru" and "user_id ru = ow"
  shows "case deleteVideo env req w of
           (r, w') \<Rightarrow>
             (case db_fault env VideoFindByIdAndDelete of
                None \<Rightarrow>
                  r = Inr (json 200 200 NoData ''Video deleted successfully'') \<and>
                  videos w' = (videos w)(i := None) \<and>
                  trace w' = trace w @ destroy_attempt (videoFile v) @
                             destroy_attempt (thumbnail v) @ [DbWrite VideoFindByIdAndDelete i]
              | Some m \<Rightarrow>
                  r = Inl (DbError m) \<and>
                  videos w' = videos w \<and>
                  trace w' = trace w @ destroy_attempt (videoFile v) @
                             destroy_attempt (thumbnail v))"
  using assms
  by (simp add: deleteVideo_def Video_findById_def Video_findByIdAndDelete_def not_owner_def
        db_call_def delete_old_asset_run io_defs split: option.splits)

theorem assets_destroyed_before_record_deleted_witness:
  "case deleteVideo ((demo_env 0)\<lparr>db_fault := (\<lambda>op. if op = VideoFindByIdAndDelete
                                                   then Some ''connection lost'' else None)\<rparr>)
          (demo_request\<lparr>params_videoId := Some 7, req_user := Some demo_user\<rparr>) demo_world of
     (r, w') \<Rightarrow>
       r = Inl (DbError ''connection lost'') \<and>
       videos w' 7 = Some demo_video \<and>
       trace w' = [CloudDestroy ''clip'' ''video'', CloudDestroy ''thumb'' ''image'']"
  using assets_destroyed_before_record_deleted [where
      env = "(demo_env 0)\<lparr>db_fault := (\<lambda>op. if op = VideoFindByIdAndDelete
                                               then Some ''connection lost'' else None)\<rparr>"
      and req = "demo_request\<lparr>params_videoId := Some 7, req_user := Some demo_user\<rparr>"
      and w = demo_world and i = 7 and v = demo_video and ow = 1 and ru = demo_user]
  by (simp add: demo_env_def demo_world_def demo_request_def demo_video_def demo_user_def
        destroy_attempt_def split: prod.splits)

section \<open>Replacing a thumbnail\<close>

lemma updateUserAvatar_order:
  assumes "file_path req = Some p" and "p \<noteq> []" and "p \<in> files w"
    and "cloud_upload env p = Some up" and "truthy (secure_url up)"
    and "req_user req = Some ru" and "users w (user_id ru) = Some u"
  shows "case updateUserAvatar env req w of
           (r, w') \<Rightarrow>
             (case db_fault env UserFindByIdAndUpdate of
                None \<Rightarrow>
                  users w' = (users w)(user_id ru \<mapsto> u\<lparr>avatar := secure_url up\<rparr>) \<and>
                  trace w' = trace w @ [CloudUpload p, FsUnlink p,
                                        DbWrite UserFindByIdAndUpdate (user_id ru)] @
                             destroy_attempt (avatar ru)
              | Some m \<Rightarrow>
                  r = Inl (DbError m) \<and> users w' = users w \<and>
                  trace w' = trace w @ [CloudUpload p, FsUnlink p])"
  using assms uploadOnCloudinary_staged [of p w env]
  by (simp add: updateUserAvatar_def User_findByIdAndUpdate_def db_call_def
        delete_old_asset_run io_defs truthy_def split: option.splits)

lemma updateUserCoverImage_order:
  assumes "file_path req = Some p" and "p \<noteq> []" and "p \<in> files w"
    and "cloud_upload env p = Some up" and "truthy (secure_url up)"
    and "req_user req = Some ru" and "users w (user_id ru) = Some u"
  shows "case updateUserCoverImage env req w of
           (r, w') \<Rightarrow>
             (case db_fault env UserFindByIdAndUpdate of
                None \<Rightarrow>
                  users w' = (users w)(user_id ru \<mapsto> u\<lparr>coverImage := secure_url up\<rparr>) \<and>
                  trace w' = trace w @ [CloudUpload p, FsUnlink p,
                                        DbWrite UserFindByIdAndUpdate (user_id ru)] @
                             destroy_attempt (coverImage ru)
              | Some m \<Rightarrow>
                  r = Inl (DbError m) \<and> users w' = users w \<and>
                  trace w' = trace w @ [CloudUpload p, FsUnlink p])"
  using assms uploadOnCloudinary_staged [of p w env]
  by (simp add: updateUserCoverImage_def User_findByIdAndUpdate_def db_call_def
        delete_old_asset_run io_defs truthy_def split: option.splits)

lemma updateVideo_order:
  assumes "params_videoId req = Some i" and "db_fault env VideoFindById = None"
    and "videos w i = Some v" and "owner v = Some ow"
    and "req_user req = Some ru" and "user_id ru = ow"
    and "file_path req = Some p" and "p \<noteq> []" and "p \<in> files w"
    and "cloud_upload env p = Some up" and "truthy (secure_url up)"
  shows "case updateVideo env req w of
           (r, w') \<Rightarrow>
             (case db_fault env VideoFindByIdAndUpdate of
                None \<Rightarrow>
                  trace w' = trace w @ [CloudUpload p, FsUnlink p] @
                             destroy_attempt (thumbnail v) @ [DbWrite VideoFindByIdAndUpdate i]
              | Some m \<Rightarrow>
                  r = Inl (DbError m) \<and> videos w' = videos w \<and>
                  trace w' = trace w @ [CloudUpload p, FsUnlink p] @
                             destroy_attempt (thumbnail v))"
  using assms uploadOnCloudinary_staged [of p w env]
  by (simp add: updateVideo_def Video_findById_def Video_findByIdAndUpdate_def not_owner_def
        db_call_def delete_old_asset_run io_defs Let_def truthy_def split: option.splits)

text \<open>
  Claim C2, at the failing input.  \<open>updateVideo\<close> with a new thumbnail for a video that
  has one: the remote delete of the old thumbnail is issued before the store write, and
  when the store write then fails the old thumbnail has been deleted while the document
  still refers to it.  (\<open>updateUserAvatar\<close> and \<open>updateUserCoverImage\<close> keep the
  order the claim states, see \<open>updateUserAvatar_order\<close> and \<open>updateUserCoverImage_order\<close>.)
\<close>

theorem updateVideo_destroys_before_persisting:
  "(case updateVideo (demo_env 0)
           (demo_request\<lparr>params_videoId := Some 7, file_path := Some ''/tmp/a.png'',
              req_user := Some demo_user\<rparr>) demo_world of
      (r, w') \<Rightarrow>
        trace w' = [CloudUpload ''/tmp/a.png'', FsUnlink ''/tmp/a.png'',
                    CloudDestroy ''thumb'' ''image'', DbWrite VideoFindByIdAndUpdate 7]) \<and>
   (case updateVideo ((demo_env 0)\<lparr>db_fault := (\<lambda>op. if op = VideoFindByIdAndUpdate
                                                   then Some ''connection lost'' else None)\<rparr>)
           (demo_request\<lparr>params_videoId := Some 7, file_path := Some ''/tmp/a.png'',
              req_user := Some demo_user\<rparr>) demo_world of
      (r, w') \<Rightarrow>
        r = Inl (DbError ''connection lost'') \<and>
        videos w' 7 = Some demo_video \<and>
        trace w' = [CloudUpload ''/tmp/a.png'', FsUnlink ''/tmp/a.png'',
                    CloudDestroy ''thumb'' ''image''])"
  using updateVideo_order [where env = "demo_env 0" and w = demo_world and i = 7
      and v = demo_video and ow = 1 and ru = demo_user and p = "''/tmp/a.png''"
      and up = "the (demo_upload ''/tmp/a.png'')"
      and req = "demo_request\<lparr>params_videoId := Some 7, file_path := Some ''/tmp/a.png'',
              req_user := Some demo_user\<rparr>"]
    updateVideo_order [where env = "(demo_env 0)\<lparr>db_fault := (\<lambda>op. if op = VideoFindByIdAndUpdate
                                                   then Some ''connection lost'' else None)\<rparr>"
      and w = demo_world and i = 7
      and v = demo_video and ow = 1 and ru = demo_user and p = "''/tmp/a.png''"
      and up = "the (demo_upload ''/tmp/a.png'')"
      and req = "demo_request\<lparr>params_videoId := Some 7, file_path := Some ''/tmp/a.png'',
              req_user := Some demo_user\<rparr>"]
  by (simp add: demo_env_def demo_world_def demo_request_def demo_video_def demo_user_def
        demo_upload_def destroy_attempt_def truthy_def split: prod.splits)

section \<open>Two rotations in flight\<close>

lemma refreshAccessToken_phases:
  "refreshAccessToken env req w = io_bind (refresh_check env req) (refresh_issue env) w"
  by (simp add: refreshAccessToken_def refresh_check_def refresh_issue_def io_defs
        split: option.splits sum.splits prod.splits)

lemma advance_twice:
  "(case advance env (Start req) w of (r, w') \<Rightarrow> advance env r w') =
     (case refreshAccessToken env req w of (out, w') \<Rightarrow> (Finished out, w'))"
  by (simp add: refreshAccessToken_phases advance_def io_bind_def
        split: prod.splits sum.splits)

lemma refresh_check_ok:
  assumes "js_or (cookies_refreshToken req) (body_refreshToken req) = Some T" and "T \<noteq> []"
    and "jwt_verify env T (REFRESH_TOKEN_SECRET env) (now env) = Inr claims"
    and "payload_id claims = Some k"
    and "users w k = Some u" and "user_id u = k" and "refreshToken u = Some T"
    and "db_fault env UserFindById = None"
  shows "refresh_check env req w = (Inr k, w)"
  using assms by (simp add: refresh_check_def User_findById_def db_call_def io_defs)

lemma refresh_check_superseded:
  assumes "js_or (cookies_refreshToken req) (body_refreshToken req) = Some T"
    and "jwt_verify env T (REFRESH_TOKEN_SECRET env) (now env) = Inr claims"
    and "payload_id claims = Some k"
    and "users w k = Some u" and "refreshToken u \<noteq> Some T"
  shows "\<exists>m. refresh_check env req w = (Inl (ApiError 401 m), w)"
  using assms
  by (auto simp add: refresh_check_def User_findById_def db_call_def io_defs
        split: option.splits)

lemma refresh_issue_ok:
  assumes "db_fault env UserFindById = None" and "db_fault env UserSave = None"
    and "users w k = Some u" and "user_id u = k"
  shows "refresh_issue env k w =
           (Inr ((json 200 200 (Tokens (generateAccessToken env u) (generateRefreshToken env u))
                    ''Access token refreshed'')
                   \<lparr>res_cookies := [(''accessToken'', generateAccessToken env u),
                                    (''refreshToken'', generateRefreshToken env u)]\<rparr>),
            w\<lparr>users := (users w)(k \<mapsto> u\<lparr>refreshToken := Some (generateRefreshToken env u)\<rparr>),
              trace := trace w @ [DbWrite UserSave k]\<rparr>)"
  using assms generateAccessAndRefreshToken_ok [of env w k u]
  by (simp add: refresh_issue_def io_defs)

lemma generateRefreshToken_field [simp]:
  "generateRefreshToken env (u\<lparr>refreshToken := x\<rparr>) = generateRefreshToken env u"
  "generateAccessToken env (u\<lparr>refreshToken := x\<rparr>) = generateAccessToken env u"
  by (simp_all add: generateRefreshToken_def generateAccessToken_def)

lemma overlapping_rotations:
  assumes presents: "js_or (cookies_refreshToken reqA) (body_refreshToken reqA) = Some T"
      "js_or (cookies_refreshToken reqB) (body_refreshToken reqB) = Some T" "T \<noteq> []"
    and stored: "users w k = Some u" "user_id u = k" "refreshToken u = Some T"
    and verifiesA: "jwt_verify envA T (REFRESH_TOKEN_SECRET envA) (now envA) = Inr cA"
      "payload_id cA = Some k"
    and verifiesB: "jwt_verify envB T (REFRESH_TOKEN_SECRET envB) (now envB) = Inr cB"
      "payload_id cB = Some k"
    and upA: "db_fault envA UserFindById = None" "db_fault envA UserSave = None"
    and upB: "db_fault envB UserFindById = None" "db_fault envB UserSave = None"
    and sched: "s = [True, False, True, False] \<or> s = [False, True, True, False]"
  shows "case run_schedule envA envB s (Start reqA, Start reqB, w) of
           (ra, rb, w') \<Rightarrow>
             succeeded ra \<and> succeeded rb \<and>
             issued_refresh ra = Some (generateRefreshToken envA u) \<and>
             issued_refresh rb = Some (generateRefreshToken envB u) \<and>
             map_option refreshToken (users w' k) = Some (issued_refresh rb)"
proof -
  have ca: "refresh_check envA reqA w = (Inr k, w)"
    by (rule refresh_check_ok [OF presents(1,3) verifiesA stored upA(1)])
  have cb: "refresh_check envB reqB w = (Inr k, w)"
    by (rule refresh_check_ok [OF presents(2,3) verifiesB stored upB(1)])
  let ?w1 = "w\<lparr>users := (users w)(k \<mapsto> u\<lparr>refreshToken := Some (generateRefreshToken envA u)\<rparr>),
              trace := trace w @ [DbWrite UserSave k]\<rparr>"
  have ia: "refresh_issue envA k w = (Inr ((json 200 200 (Tokens (generateAccessToken envA u) (generateRefreshToken envA u))
                    ''Access token refreshed'')
                   \<lparr>res_cookies := [(''accessToken'', generateAccessToken envA u),
                                    (''refreshToken'', generateRefreshToken envA u)]\<rparr>), ?w1)"
    by (rule refresh_issue_ok [OF upA stored(1,2)])
  have ib: "refresh_issue envB k ?w1 = (Inr ((json 200 200 (Tokens (generateAccessToken envB u) (generateRefreshToken envB u))
                    ''Access token refreshed'')
                   \<lparr>res_cookies := [(''accessToken'', generateAccessToken envB u),
                                    (''refreshToken'', generateRefreshToken envB u)]\<rparr>),
       ?w1\<lparr>users := (users ?w1)(k \<mapsto> u\<lparr>refreshToken := Some (generateRefreshToken envB u)\<rparr>),
              trace := trace ?w1 @ [DbWrite UserSave k]\<rparr>)"
    using refresh_issue_ok [OF upB, of ?w1 k "u\<lparr>refreshToken := Some (generateRefreshToken envA u)\<rparr>"]
      stored(2) by simp
  show ?thesis
    using sched ca cb ia ib
    by (auto simp add: advance_def succeeded_def issued_refresh_def json_def)
qed

lemma serial_rotations:
  assumes presents: "js_or (cookies_refreshToken reqA) (body_refreshToken reqA) = Some T"
      "js_or (cookies_refreshToken reqB) (body_refreshToken reqB) = Some T" "T \<noteq> []"
    and stored: "users w k = Some u" "user_id u = k" "refreshToken u = Some T"
    and verifiesA: "jwt_verify envA T (REFRESH_TOKEN_SECRET envA) (now envA) = Inr cA"
      "payload_id cA = Some k"
    and verifiesB: "jwt_verify envB T (REFRESH_TOKEN_SECRET envB) (now envB) = Inr cB"
      "payload_id cB = Some k"
    and upA: "db_fault envA UserFindById = None" "db_fault envA UserSave = None"
    and freshA: "generateRefreshToken envA u \<noteq> T"
  shows "case run_schedule envA envB [True, True, False, False] (Start reqA, Start reqB, w) of
           (ra, rb, w') \<Rightarrow>
             succeeded ra \<and> unauthorized rb \<and>
             issued_refresh ra = Some (generateRefreshToken envA u) \<and>
             map_option refreshToken (users w' k) = Some (issued_refresh ra)"
proof -
  have ca: "refresh_check envA reqA w = (Inr k, w)"
    by (rule refresh_check_ok [OF presents(1,3) verifiesA stored upA(1)])
  let ?w1 = "w\<lparr>users := (users w)(k \<mapsto> u\<lparr>refreshToken := Some (generateRefreshToken envA u)\<rparr>),
              trace := trace w @ [DbWrite UserSave k]\<rparr>"
  have ia: "refresh_issue envA k w = (Inr ((json 200 200 (Tokens (generateAccessToken envA u) (generateRefreshToken envA u))
                    ''Access token refreshed'')
                   \<lparr>res_cookies := [(''accessToken'', generateAccessToken envA u),
                                    (''refreshToken'', generateRefreshToken envA u)]\<rparr>), ?w1)"
    by (rule refresh_issue_ok [OF upA stored(1,2)])
  have "users ?w1 k = Some (u\<lparr>refreshToken := Some (generateRefreshToken envA u)\<rparr>)"
    and "refreshToken (u\<lparr>refreshToken := Some (generateRefreshToken envA u)\<rparr>) \<noteq> Some T"
    using freshA by simp_all
  from refresh_check_superseded [OF presents(2) verifiesB this]
  obtain m where cb: "refresh_check envB reqB ?w1 = (Inl (ApiError 401 m), ?w1)" by blast
  show ?thesis
    using ca ia cb
    by (simp add: advance_def succeeded_def unauthorized_def issued_refresh_def json_def)
qed

lemma swap_schedule:
  "run_schedule envA envB s (ra, rb, w) =
     (case run_schedule envB envA (map Not s) (rb, ra, w) of (rb', ra', w') \<Rightarrow> (ra', rb', w'))"
  by (induction s arbitrary: ra rb w) (auto split: prod.splits)

text \<open>Both rotations check the stored token before either writes: both succeed, with
  different tokens.\<close>

theorem both_rotations_succeed_counterexample:
  "\<not> one_rotation_wins
       (run_schedule (demo_env 1) (demo_env 2) [True, False, True, False]
          (Start (demo_request\<lparr>cookies_refreshToken := Some demo_token\<rparr>),
           Start (demo_request\<lparr>body_refreshToken := Some demo_token\<rparr>), demo_world)) 1 \<and>
   (case run_schedule (demo_env 1) (demo_env 2) [True, False, True, False]
          (Start (demo_request\<lparr>cookies_refreshToken := Some demo_token\<rparr>),
           Start (demo_request\<lparr>body_refreshToken := Some demo_token\<rparr>), demo_world) of
      (ra, rb, w') \<Rightarrow>
        succeeded ra \<and> succeeded rb \<and>
        issued_refresh ra = Some ''rs.u.xxxxxx'' \<and>
        issued_refresh rb = Some ''rs.u.xxxxxxx'' \<and>
        map_option refreshToken (users w' 1) = Some (Some ''rs.u.xxxxxxx''))"
proof -
  let ?st = "(Start (demo_request\<lparr>cookies_refreshToken := Some demo_token\<rparr>),
           Start (demo_request\<lparr>body_refreshToken := Some demo_token\<rparr>), demo_world)"
  obtain ra rb w' where run:
    "run_schedule (demo_env 1) (demo_env 2) [True, False, True, False] ?st = (ra, rb, w')"
    by (cases "run_schedule (demo_env 1) (demo_env 2) [True, False, True, False] ?st")
  have "case run_schedule (demo_env 1) (demo_env 2) [True, False, True, False] ?st of
           (ra, rb, w') \<Rightarrow>
             succeeded ra \<and> succeeded rb \<and>
             issued_refresh ra = Some (generateRefreshToken (demo_env 1) demo_user) \<and>
             issued_refresh rb = Some (generateRefreshToken (demo_env 2) demo_user) \<and>
             map_option refreshToken (users w' 1) = Some (issued_refresh rb)"
    by (rule overlapping_rotations [where T = demo_token and cA = "\<lparr>payload_id = Some 1\<rparr>"
          and cB = "\<lparr>payload_id = Some 1\<rparr>"])
       (simp_all add: demo_request_def demo_token_def demo_world_def demo_user_def demo_env_def
          demo_tokens demo_verify_refresh js_or_def truthy_def)
  with run have facts: "succeeded ra" "succeeded rb"
      "issued_refresh ra = Some (generateRefreshToken (demo_env 1) demo_user)"
      "issued_refresh rb = Some (generateRefreshToken (demo_env 2) demo_user)"
      "map_option refreshToken (users w' 1) = Some (issued_refresh rb)"
    by auto
  have tokens: "generateRefreshToken (demo_env 1) demo_user = ''rs.u.xxxxxx''"
      "generateRefreshToken (demo_env 2) demo_user = ''rs.u.xxxxxxx''"
    by (simp_all add: generateRefreshToken_def demo_env_def demo_user_def demo_tokens)
  have "\<not> unauthorized ra" "\<not> unauthorized rb"
    using facts(1,2) by (auto simp add: succeeded_def unauthorized_def split: rotation.splits sum.splits)
  then show ?thesis
    using run facts tokens by (simp add: one_rotation_wins_def)
qed

text \<open>
  Claim C3, amended.  Two rotations present the stored token \<open>T\<close> of one principal; \<open>T\<close>
  verifies for that principal in both requests and the store is up for both.  If both
  rotations pass the comparison with the stored token before either writes, both
  succeed, and the stored token is the one written last; the code has no conditional
  update.  If one rotation runs to its end before the other starts, and the token it
  generated differs from \<open>T\<close>, exactly one succeeds, the other fails with status 401 and
  the stored token is the winner's.
\<close>

theorem rotations_in_flight:
  assumes presents: "js_or (cookies_refreshToken reqA) (body_refreshToken reqA) = Some T"
      "js_or (cookies_refreshToken reqB) (body_refreshToken reqB) = Some T" "T \<noteq> []"
    and stored: "users w k = Some u" "user_id u = k" "refreshToken u = Some T"
    and verifiesA: "jwt_verify envA T (REFRESH_TOKEN_SECRET envA) (now envA) = Inr cA"
      "payload_id cA = Some k"
    and verifiesB: "jwt_verify envB T (REFRESH_TOKEN_SECRET envB) (now envB) = Inr cB"
      "payload_id cB = Some k"
    and upA: "db_fault envA UserFindById = None" "db_fault envA UserSave = None"
    and upB: "db_fault envB UserFindById = None" "db_fault envB UserSave = None"
  shows "(case run_schedule envA envB [True, False, True, False] (Start reqA, Start reqB, w) of
            (ra, rb, w') \<Rightarrow> succeeded ra \<and> succeeded rb \<and>
              map_option refreshToken (users w' k) = Some (issued_refresh rb)) \<and>
         (case run_schedule envA envB [False, True, True, False] (Start reqA, Start reqB, w) of
            (ra, rb, w') \<Rightarrow> succeeded ra \<and> succeeded rb \<and>
              map_option refreshToken (users w' k) = Some (issued_refresh rb)) \<and>
         (case run_schedule envA envB [True, False, False, True] (Start reqA, Start reqB, w) of
            (ra, rb, w') \<Rightarrow> succeeded ra \<and> succeeded rb \<and>
              map_option refreshToken (users w' k) = Some (issued_refresh ra)) \<and>
         (case run_schedule envA envB [False, True, False, True] (Start reqA, Start reqB, w) of
            (ra, rb, w') \<Rightarrow> succeeded ra \<and> succeeded rb \<and>
              map_option refreshToken (users w' k) = Some (issued_refresh ra)) \<and>
         (generateRefreshToken envA u \<noteq> T \<longrightarrow>
            one_rotation_wins
              (run_schedule envA envB [True, True, False, False] (Start reqA, Start reqB, w)) k) \<and>
         (generateRefreshToken envB u \<noteq> T \<longrightarrow>
            one_rotation_wins
              (run_schedule envA envB [False, False, True, True] (Start reqA, Start reqB, w)) k)"
proof -
  note AB = presents stored verifiesA verifiesB
  note BA = presents(2,1,3) stored verifiesB verifiesA
  have s1: "one_rotation_wins
           (run_schedule envA envB [True, True, False, False] (Start reqA, Start reqB, w)) k"
    if freshA: "generateRefreshToken envA u \<noteq> T"
    using serial_rotations [OF AB upA freshA]
    by (auto simp add: one_rotation_wins_def split: prod.splits)
  have s2: "one_rotation_wins
           (run_schedule envA envB [False, False, True, True] (Start reqA, Start reqB, w)) k"
    if freshB: "generateRefreshToken envB u \<noteq> T"
    using serial_rotations [OF BA upB freshB]
    by (subst swap_schedule) (auto simp add: one_rotation_wins_def split: prod.splits)
  have o1: "case run_schedule envA envB [True, False, True, False] (Start reqA, Start reqB, w) of
            (ra, rb, w') \<Rightarrow> succeeded ra \<and> succeeded rb \<and>
              map_option refreshToken (users w' k) = Some (issued_refresh rb)"
    using overlapping_rotations [OF AB upA upB, of "[True, False, True, False]"]
    by (auto split: prod.splits)
  have o2: "case run_schedule envA envB [False, True, True, False] (Start reqA, Start reqB, w) of
            (ra, rb, w') \<Rightarrow> succeeded ra \<and> succeeded rb \<and>
              map_option refreshToken (users w' k) = Some (issued_refresh rb)"
    using overlapping_rotations [OF AB upA upB, of "[False, True, True, False]"]
    by (auto split: prod.splits)
  have o3: "case run_schedule envA envB [True, False, False, True] (Start reqA, Start reqB, w) of
            (ra, rb, w') \<Rightarrow> succeeded ra \<and> succeeded rb \<and>
              map_option refreshToken (users w' k) = Some (issued_refresh ra)"
    using overlapping_rotations [OF BA upB upA, of "[False, True, True, False]"]
    by (subst swap_schedule) (auto split: prod.splits)
  have o4: "case run_schedule envA envB [False, True, False, True] (Start reqA, Start reqB, w) of
            (ra, rb, w') \<Rightarrow> succeeded ra \<and> succeeded rb \<and>
              map_option refreshToken (users w' k) = Some (issued_refresh ra)"
    using overlapping_rotations [OF BA upB upA, of "[True, False, True, False]"]
    by (subst swap_schedule) (auto split: prod.splits)
  show ?thesis
    using s1 s2 o1 o2 o3 o4 by blast
qed

theorem rotations_in_flight_witness:
  "one_rotation_wins
     (run_schedule (demo_env 1) (demo_env 2) [True, True, False, False]
        (Start (demo_request\<lparr>cookies_refreshToken := Some demo_token\<rparr>),
         Start (demo_request\<lparr>body_refreshToken := Some demo_token\<rparr>), demo_world)) 1 \<and>
   both_rotations_win
     (run_schedule (demo_env 1) (demo_env 2) [False, True, False, True]
        (Start (demo_request\<lparr>cookies_refreshToken := Some demo_token\<rparr>),
         Start (demo_request\<lparr>body_refreshToken := Some demo_token\<rparr>), demo_world))"
proof -
  have "generateRefreshToken (demo_env 1) demo_user \<noteq> demo_token"
    "generateRefreshToken (demo_env 2) demo_user \<noteq> demo_token"
    by (simp_all add: generateRefreshToken_def demo_env_def demo_user_def demo_token_def
          demo_tokens)
  then show ?thesis
    using rotations_in_flight [where envA = "demo_env 1" and envB = "demo_env 2"
        and reqA = "demo_request\<lparr>cookies_refreshToken := Some demo_token\<rparr>"
        and reqB = "demo_request\<lparr>body_refreshToken := Some demo_token\<rparr>"
        and w = demo_world and k = 1 and u = demo_user and T = demo_token
        and cA = "\<lparr>payload_id = Some 1\<rparr>" and cB = "\<lparr>payload_id = Some 1\<rparr>"]
    by (simp add: demo_request_def demo_token_def demo_world_def demo_user_def demo_env_def
          demo_tokens demo_verify_refresh js_or_def truthy_def both_rotations_win_def
          split: prod.splits)
qed

end
